theory Spec2Isabelle
  imports Complex_Main "HOL-Library.Word" "HOL-Library.Char_ord" "HOL-Library.List_Lexorder"
begin

section \<open>Values, exceptions and the library interface\<close>

text \<open>
  The module \<^verbatim>\<open>datamapplot/create_plots.py\<close> holds two orchestration functions,
  \<^verbatim>\<open>create_plot\<close> and \<^verbatim>\<open>create_interactive_plot\<close>. Both are sequences of array and
  dictionary operations around calls into other modules (palette handling, medoids, the
  renderers). An exception of Python is a value \<open>Inl e\<close> of the result type; the
  functions of the other modules are fields of a record of library functions, each of
  which may raise.
\<close>

datatype pyerror =
    IndexError
  | KeyError string
  | ValueError
  | TypeError
  | OverflowError
  | LibraryError string

text \<open>Sequencing of statements that may raise: the first exception ends the run.\<close>

definition and_then :: "pyerror + 'a \<Rightarrow> ('a \<Rightarrow> pyerror + 'b) \<Rightarrow> pyerror + 'b" where
  "and_then m f = (case m of Inl e \<Rightarrow> Inl e | Inr v \<Rightarrow> f v)"

text \<open>A list comprehension whose element expression may raise, evaluated left to right.\<close>

fun comprehension :: "('a \<Rightarrow> pyerror + 'b) \<Rightarrow> 'a list \<Rightarrow> pyerror + 'b list" where
  "comprehension f [] = Inr []"
| "comprehension f (v # vs) =
     and_then (f v) (\<lambda>w. and_then (comprehension f vs) (\<lambda>ws. Inr (w # ws)))"

text \<open>
  A float of numpy is a real number, an infinity or NaN. The square root of a negative
  number, \<^verbatim>\<open>0/0\<close> and \<^verbatim>\<open>inf * 0\<close> give NaN, with a warning and no exception.
  Rounding is not modelled (nor are signed zeros); overflow is: a result beyond the
  largest float, \<open>2 ^ 1024 - 2 ^ 971\<close>, is an infinity.
\<close>

datatype npfloat = Num real | PosInf | NegInf | NaN

definition max_float :: real where
  "max_float = 2 ^ 1024 - 2 ^ 971"

definition float_of :: "real \<Rightarrow> npfloat" where
  "float_of v =
     (if max_float < v then PosInf else if v < - max_float then NegInf else Num v)"

fun np_sign :: "npfloat \<Rightarrow> real" where
  "np_sign (Num v) = sgn v"
| "np_sign PosInf = 1"
| "np_sign NegInf = - 1"
| "np_sign NaN = 0"

fun np_negate :: "npfloat \<Rightarrow> npfloat" where
  "np_negate (Num v) = Num (- v)"
| "np_negate PosInf = NegInf"
| "np_negate NegInf = PosInf"
| "np_negate NaN = NaN"

text \<open>\<^verbatim>\<open>a * b\<close>: an infinity times zero is NaN.\<close>

fun np_times :: "npfloat \<Rightarrow> npfloat \<Rightarrow> npfloat" where
  "np_times (Num v) (Num w) = float_of (v * w)"
| "np_times NaN b = NaN"
| "np_times a NaN = NaN"
| "np_times a b =
     (if np_sign a * np_sign b = 0 then NaN
      else if 0 < np_sign a * np_sign b then PosInf else NegInf)"

text \<open>\<^verbatim>\<open>a + b\<close> and \<^verbatim>\<open>a - b\<close>: the sum of the two infinities is NaN.\<close>

fun np_plus :: "npfloat \<Rightarrow> npfloat \<Rightarrow> npfloat" where
  "np_plus (Num v) (Num w) = float_of (v + w)"
| "np_plus NaN b = NaN"
| "np_plus a NaN = NaN"
| "np_plus PosInf NegInf = NaN"
| "np_plus NegInf PosInf = NaN"
| "np_plus PosInf b = PosInf"
| "np_plus a PosInf = PosInf"
| "np_plus NegInf b = NegInf"
| "np_plus a NegInf = NegInf"

definition np_minus :: "npfloat \<Rightarrow> npfloat \<Rightarrow> npfloat" where
  "np_minus a b = np_plus a (np_negate b)"

text \<open>
  \<^verbatim>\<open>a / b\<close> on numpy floats: a division by zero gives an infinity (NaN for
  \<^verbatim>\<open>0/0\<close>) with a warning, a finite number over an infinity is zero.
\<close>

fun np_divide :: "npfloat \<Rightarrow> npfloat \<Rightarrow> npfloat" where
  "np_divide (Num v) (Num w) =
     (if w = 0 then (if v = 0 then NaN else if 0 < v then PosInf else NegInf)
      else float_of (v / w))"
| "np_divide NaN b = NaN"
| "np_divide a NaN = NaN"
| "np_divide (Num v) b = Num 0"
| "np_divide a (Num w) = (if 0 \<le> w then a else np_negate a)"
| "np_divide a b = NaN"

text \<open>\<^verbatim>\<open>np.sqrt\<close>\<close>

fun np_sqrt :: "npfloat \<Rightarrow> npfloat" where
  "np_sqrt (Num v) = (if v < 0 then NaN else Num (sqrt v))"
| "np_sqrt PosInf = PosInf"
| "np_sqrt NegInf = NaN"
| "np_sqrt NaN = NaN"

text \<open>The values a keyword argument can carry.\<close>

datatype pyval = PyFloat npfloat | PyInt int | PyStr string | PyNone

type_synonym point = "real \<times> real"
type_synonym color = string
type_synonym rgb = "int \<times> int \<times> int"

text \<open>The arguments that \<^verbatim>\<open>create_plot\<close> hands to \<^verbatim>\<open>render_plot\<close>.\<close>

record render_plot_call =
  rp_data_map_coords :: "point list"
  rp_color_list :: "color list"
  rp_label_text :: "string list"
  rp_label_locations :: "point list"
  rp_title :: "string option"
  rp_sub_title :: "string option"
  rp_point_size :: pyval
  rp_alpha :: pyval
  rp_label_text_colors :: "color list option"
  rp_label_arrow_colors :: "color list option"
  rp_highlight_colors :: "color list"
  rp_figsize :: "npfloat \<times> npfloat"
  rp_noise_color :: color
  rp_label_size_adjustments :: "npfloat list"
  rp_dpi :: npfloat
  rp_force_matplotlib :: bool
  rp_darkmode :: bool
  rp_highlight_labels :: "string list option"
  rp_kwds :: "string \<rightharpoonup> pyval"

text \<open>
  One row of the label dataframe of the interactive plot, as
  \<^verbatim>\<open>label_text_and_polygon_dataframes\<close> returns it: the columns this module reads.
\<close>

record label_row =
  row_x :: real
  row_y :: real
  row_label :: string

text \<open>The same row with the colour columns that \<^verbatim>\<open>create_interactive_plot\<close> adds.\<close>

record colored_label_row = label_row +
  row_r :: int
  row_g :: int
  row_b :: int
  row_a :: int

text \<open>One row of the point dataframe of the interactive plot.\<close>

record point_row =
  pt_x :: real
  pt_y :: real
  pt_hover_text :: "string option"
  pt_size :: "real option"
  pt_r :: "8 word"
  pt_g :: "8 word"
  pt_b :: "8 word"
  pt_a :: "8 word"

text \<open>The arguments that \<^verbatim>\<open>create_interactive_plot\<close> hands to \<^verbatim>\<open>render_html\<close>.\<close>

record render_html_call =
  rh_point_dataframe :: "point_row list"
  rh_label_dataframe :: "colored_label_row list"
  rh_inline_data :: bool
  rh_color_label_text :: bool
  rh_darkmode :: bool
  rh_kwds :: "string \<rightharpoonup> pyval"

text \<open>The class \<^verbatim>\<open>InteractiveFigure(html_str, width=width, height=height)\<close>.\<close>

datatype 'html interactive_figure = InteractiveFigure 'html pyval pyval

text \<open>
  The functions imported at the head of the module. Their bodies are in other modules;
  here they are parameters. \<open>'fig\<close> is the pair \<^verbatim>\<open>(fig, ax)\<close> of matplotlib,
  \<open>'html\<close> the rendered document.
\<close>

record ('cmap, 'fig, 'html) library =
  medoid :: "point list \<Rightarrow> pyerror + point"
  palette_from_datamap :: "point list \<Rightarrow> point list \<Rightarrow> real \<Rightarrow> real \<Rightarrow> pyerror + color list"
  palette_from_cmap_and_datamap ::
    "'cmap \<Rightarrow> point list \<Rightarrow> point list \<Rightarrow> real \<Rightarrow> pyerror + color list"
  deep_palette :: "color list \<Rightarrow> pyerror + color list"
  pastel_palette :: "color list \<Rightarrow> pyerror + color list"
  textwrap_fill :: "string \<Rightarrow> int \<Rightarrow> pyerror + string"
  to_rgb :: "color \<Rightarrow> pyerror + (real \<times> real \<times> real)"
  render_plot :: "render_plot_call \<Rightarrow> pyerror + 'fig"
  label_text_and_polygon_dataframes ::
    "string list \<Rightarrow> point list \<Rightarrow> string \<Rightarrow> bool \<Rightarrow> bool \<Rightarrow> real \<Rightarrow> pyerror + label_row list"
  render_html :: "render_html_call \<Rightarrow> pyerror + 'html"

text \<open>
  The keyword options the two entry points share, then those of each. The dictionary
  \<^verbatim>\<open>label_color_map\<close> is the list of its items in insertion order (the interactive
  plot iterates over it).
\<close>

record 'cmap plot_options =
  data_map_coords :: "point list"
  noise_label :: string
  noise_color :: color
  color_label_text :: bool
  label_wrap_width :: int
  label_color_map :: "(string \<times> color) list option"
  darkmode :: bool
  palette_hue_shift :: real
  palette_hue_radius_dependence :: real
  use_medoids :: bool
  cmap :: "'cmap option"
  marker_color_array :: "color list option"

record 'cmap create_plot_args = "'cmap plot_options" +
  labels :: "string list"
  title :: "string option"
  sub_title :: "string option"
  color_label_arrows :: bool
  figsize :: "npfloat \<times> npfloat"
  dynamic_label_size :: bool
  dpi :: npfloat
  force_matplotlib :: bool
  highlight_labels :: "string list option"
  render_plot_kwds :: "string \<rightharpoonup> pyval"

record 'cmap create_interactive_plot_args = "'cmap plot_options" +
  label_layers :: "string list list"
  hover_text :: "string list option"
  inline_data :: bool
  width :: pyval
  height :: pyval
  marker_size_array :: "real list option"
  cluster_boundary_polygons :: bool
  color_cluster_boundaries :: bool
  polygon_alpha :: real
  render_html_kwds :: "string \<rightharpoonup> pyval"

section \<open>Array operations\<close>

text \<open>\<^verbatim>\<open>np.unique\<close>: the sorted array of the distinct values.\<close>

definition np_unique :: "string list \<Rightarrow> string list" where
  "np_unique vs = remdups_adj (sort vs)"

text \<open>
  \<^verbatim>\<open>rows[mask]\<close> with a boolean mask: numpy raises IndexError when the mask and
  the array differ in length along the first axis.
\<close>

definition mask_select :: "'a list \<Rightarrow> bool list \<Rightarrow> pyerror + 'a list" where
  "mask_select rows msk =
     (if length msk \<noteq> length rows then Inl IndexError
      else Inr (map fst (filter snd (zip rows msk))))"

text \<open>\<^verbatim>\<open>cluster_label_vector == i\<close>: the elementwise comparison.\<close>

definition eq_mask :: "'a list \<Rightarrow> 'a \<Rightarrow> bool list" where
  "eq_mask vs i = map (\<lambda>v. v = i) vs"

text \<open>
  \<^verbatim>\<open>rows.mean(axis=0)\<close> of an array of shape (k, 2). For \<open>k = 0\<close> numpy returns
  NaN with a warning; \<^verbatim>\<open>create_plot\<close> selects the rows of a label that occurs, so
  it never takes the mean of no rows.
\<close>

definition mean_axis0 :: "point list \<Rightarrow> point" where
  "mean_axis0 rows =
     (sum_list (map fst rows) / real (length rows),
      sum_list (map snd rows) / real (length rows))"

section \<open>The static plot: label anchors and texts\<close>

text \<open>
  \<^verbatim>\<open>unique_non_noise_labels = [label for label in np.unique(cluster_label_vector)
  if label != noise_label]\<close>
\<close>

definition unique_non_noise_labels :: "string list \<Rightarrow> string \<Rightarrow> string list" where
  "unique_non_noise_labels cluster_label_vector noise =
     filter (\<lambda>l. l \<noteq> noise) (np_unique cluster_label_vector)"

text \<open>
  The anchor of one label: the rows of \<^verbatim>\<open>data_map_coords\<close> under the mask
  \<^verbatim>\<open>cluster_label_vector == i\<close>, then their medoid or their mean.
\<close>

definition label_location ::
  "('cmap, 'fig, 'html) library \<Rightarrow> bool \<Rightarrow> point list \<Rightarrow> string list \<Rightarrow> string \<Rightarrow> pyerror + point"
where
  "label_location lib medoids coords cluster_label_vector i =
     and_then (mask_select coords (eq_mask cluster_label_vector i))
       (\<lambda>rows. if medoids then medoid lib rows else Inr (mean_axis0 rows))"

definition label_locations ::
  "('cmap, 'fig, 'html) library \<Rightarrow> bool \<Rightarrow> point list \<Rightarrow> string list \<Rightarrow> string \<Rightarrow>
   pyerror + point list"
where
  "label_locations lib medoids coords cluster_label_vector noise =
     comprehension (label_location lib medoids coords cluster_label_vector)
       (unique_non_noise_labels cluster_label_vector noise)"

text \<open>\<^verbatim>\<open>[textwrap.fill(x, width=label_wrap_width, break_long_words=False) for x in ...]\<close>\<close>

definition wrap_labels ::
  "('cmap, 'fig, 'html) library \<Rightarrow> int \<Rightarrow> string list \<Rightarrow> pyerror + string list"
where
  "wrap_labels lib wrap_width names = comprehension (\<lambda>l. textwrap_fill lib l wrap_width) names"

section \<open>The static plot: colours\<close>

text \<open>A dictionary built by a comprehension: a later pair overwrites an earlier one.\<close>

definition dict_of :: "('k \<times> 'v) list \<Rightarrow> ('k \<rightharpoonup> 'v)" where
  "dict_of kvs = fold (\<lambda>(k, v) m. m(k \<mapsto> v)) kvs Map.empty"

text \<open>\<^verbatim>\<open>d[x]\<close>: KeyError for a missing key.\<close>

definition lookup :: "(string \<rightharpoonup> 'v) \<Rightarrow> string \<Rightarrow> pyerror + 'v" where
  "lookup d k = (case d k of None \<Rightarrow> Inl (KeyError k) | Some v \<Rightarrow> Inr v)"

text \<open>\<^verbatim>\<open>palette[i]\<close> for \<open>i \<ge> 0\<close>: IndexError past the end.\<close>

definition palette_entry :: "'c list \<Rightarrow> nat \<Rightarrow> pyerror + 'c" where
  "palette_entry palette i = (if i < length palette then Inr (palette ! i) else Inl IndexError)"

text \<open>Lines 188 to 201: the palette, from the data map or from a colour map.\<close>

definition generate_palette ::
  "('cmap, 'fig, 'html) library \<Rightarrow> 'cmap option \<Rightarrow> point list \<Rightarrow> point list \<Rightarrow> real \<Rightarrow> real \<Rightarrow>
   pyerror + color list"
where
  "generate_palette lib cm coords locations hue_shift radius_weight_power =
     (case cm of
        None \<Rightarrow> palette_from_datamap lib coords locations hue_shift radius_weight_power
      | Some c \<Rightarrow> palette_from_cmap_and_datamap lib c coords locations radius_weight_power)"

text \<open>\<^verbatim>\<open>{name: index for index, name in enumerate(unique_non_noise_labels)}\<close>\<close>

definition label_to_index_map :: "string list \<Rightarrow> (string \<rightharpoonup> nat)" where
  "label_to_index_map names = dict_of (zip names [0..<length names])"

text \<open>
  \<^verbatim>\<open>palette[label_to_index_map[x]] if x in label_to_index_map else noise_color\<close>
\<close>

definition palette_color :: "color list \<Rightarrow> (string \<rightharpoonup> nat) \<Rightarrow> color \<Rightarrow> string \<Rightarrow> pyerror + color" where
  "palette_color palette index_map noise_col l =
     (case index_map l of Some i \<Rightarrow> palette_entry palette i | None \<Rightarrow> Inr noise_col)"

text \<open>Lines 205 to 208 and 209 to 216: the colour of each point, and the generated map.\<close>

definition auto_color_list ::
  "color list \<Rightarrow> string list \<Rightarrow> string \<Rightarrow> color \<Rightarrow> pyerror + color list"
where
  "auto_color_list palette cluster_label_vector noise noise_col =
     comprehension
       (palette_color palette
          (label_to_index_map (unique_non_noise_labels cluster_label_vector noise)) noise_col)
       cluster_label_vector"

definition auto_label_color_map ::
  "color list \<Rightarrow> string list \<Rightarrow> string \<Rightarrow> color \<Rightarrow> pyerror + (string \<rightharpoonup> color)"
where
  "auto_label_color_map palette cluster_label_vector noise noise_col =
     and_then
       (comprehension
          (\<lambda>l. and_then
             (palette_color palette
                (label_to_index_map (unique_non_noise_labels cluster_label_vector noise))
                noise_col l)
             (\<lambda>c. Inr (l, c)))
          (np_unique cluster_label_vector))
       (\<lambda>kvs. Inr (dict_of kvs))"

text \<open>
  Lines 218 to 221, with a map of the caller's:
  \<^verbatim>\<open>[label_color_map[x] if x != noise_label else noise_color for x in cluster_label_vector]\<close>
\<close>

definition given_color_list ::
  "(string \<rightharpoonup> color) \<Rightarrow> string list \<Rightarrow> string \<Rightarrow> color \<Rightarrow> pyerror + color list"
where
  "given_color_list given cluster_label_vector noise noise_col =
     comprehension (\<lambda>l. if l \<noteq> noise then lookup given l else Inr noise_col)
       cluster_label_vector"

text \<open>Lines 186 to 221: the pair of \<^verbatim>\<open>color_list\<close> and \<^verbatim>\<open>label_color_map\<close>.\<close>

definition color_stage ::
  "('cmap, 'fig, 'html) library \<Rightarrow> 'cmap create_plot_args \<Rightarrow> point list \<Rightarrow>
   pyerror + (color list \<times> (string \<rightharpoonup> color))"
where
  "color_stage lib a locations =
     (case label_color_map a of
        None \<Rightarrow>
          and_then
            (generate_palette lib (cmap a) (data_map_coords a) locations
               (palette_hue_shift a) (palette_hue_radius_dependence a))
            (\<lambda>palette.
               and_then (auto_color_list palette (labels a) (noise_label a) (noise_color a))
                 (\<lambda>color_list.
                    and_then
                      (auto_label_color_map palette (labels a) (noise_label a) (noise_color a))
                      (\<lambda>color_map. Inr (color_list, color_map))))
      | Some given \<Rightarrow>
          and_then
            (given_color_list (dict_of given) (labels a) (noise_label a) (noise_color a))
            (\<lambda>color_list. Inr (color_list, dict_of given)))"

text \<open>Line 226: \<^verbatim>\<open>[label_color_map[x] for x in unique_non_noise_labels]\<close>\<close>

definition label_colors :: "(string \<rightharpoonup> color) \<Rightarrow> string list \<Rightarrow> pyerror + color list" where
  "label_colors color_map names = comprehension (lookup color_map) names"

text \<open>Lines 228 to 235: the colours of the label texts.\<close>

definition label_text_colors ::
  "('cmap, 'fig, 'html) library \<Rightarrow> bool \<Rightarrow> bool \<Rightarrow> color list \<Rightarrow> pyerror + color list option"
where
  "label_text_colors lib colored dark colors =
     (if colored then
        and_then (if dark then pastel_palette lib colors else deep_palette lib colors)
          (\<lambda>cs. Inr (Some cs))
      else Inr None)"

text \<open>Lines 237 to 240.\<close>

definition label_arrow_colors :: "bool \<Rightarrow> color list \<Rightarrow> color list option" where
  "label_arrow_colors colored colors = (if colored then Some colors else None)"

section \<open>The static plot: label sizes, point size and alpha\<close>

text \<open>
  \<^verbatim>\<open>pd.Series(cluster_label_vector).value_counts()\<close>: the number of points of each
  label that occurs, the noise label among them.
\<close>

definition value_counts :: "string list \<Rightarrow> (string \<times> nat) list" where
  "value_counts vs = map (\<lambda>l. (l, length (filter (\<lambda>v. v = l) vs))) (np_unique vs)"

text \<open>
  Lines 245 and 246: subtract the minimum, divide by the maximum of the result. The
  shifted sizes lie between 0 and their maximum, so a maximum of 0 divides 0 by 0.
\<close>

definition normalised_sizes :: "real list \<Rightarrow> npfloat list" where
  "normalised_sizes sizes =
     (case sizes of
        [] \<Rightarrow> []
      | v # vs \<Rightarrow>
          (let lo = fold min vs v;
               shifted = map (\<lambda>w. w - lo) sizes;
               hi = fold max shifted 0
           in map (\<lambda>w. if hi = 0 then NaN else Num (w / hi)) shifted))"

text \<open>
  \<^verbatim>\<open>render_plot_kwds.get("label_font_size", font_scale_factor) + 2\<close>, the factor
  of \<^verbatim>\<open>label_size_adjustments *= ...\<close>: adding 2 to a string or to None raises
  TypeError; an integer of Python plus 2 is an integer, and the product of a float
  column and an integer beyond the largest float raises OverflowError.
\<close>

definition label_font_size_plus_two :: "(string \<rightharpoonup> pyval) \<Rightarrow> npfloat \<Rightarrow> pyerror + npfloat" where
  "label_font_size_plus_two kwds font_scale_factor =
     (case kwds ''label_font_size'' of
        None \<Rightarrow> Inr (np_plus font_scale_factor (Num 2))
      | Some (PyFloat f) \<Rightarrow> Inr (np_plus f (Num 2))
      | Some (PyInt i) \<Rightarrow>
          if max_float < \<bar>of_int (i + 2)\<bar> then Inl OverflowError
          else Inr (Num (of_int (i + 2)))
      | Some (PyStr s) \<Rightarrow> Inl TypeError
      | Some PyNone \<Rightarrow> Inl TypeError)"

text \<open>Lines 242 to 255.\<close>

definition label_size_adjustments ::
  "bool \<Rightarrow> npfloat \<times> npfloat \<Rightarrow> (string \<rightharpoonup> pyval) \<Rightarrow> string list \<Rightarrow> string \<Rightarrow>
   pyerror + npfloat list"
where
  "label_size_adjustments dynamic fig_size kwds cluster_label_vector noise =
     (if dynamic then
        (let font_scale_factor = np_sqrt (np_times (fst fig_size) (snd fig_size));
             counts = value_counts cluster_label_vector;
             cluster_sizes = map (\<lambda>(l, c). sqrt (real c)) counts;
             adjustments = normalised_sizes cluster_sizes
         in and_then (label_font_size_plus_two kwds font_scale_factor)
              (\<lambda>factor.
                 comprehension
                   (lookup
                      (dict_of
                         (zip (map fst counts)
                            (map (\<lambda>v. np_minus (np_times v factor) (Num 2)) adjustments))))
                   (unique_non_noise_labels cluster_label_vector noise)))
      else Inr (replicate (length (unique_non_noise_labels cluster_label_vector noise)) (Num 0)))"

text \<open>\<^verbatim>\<open>np.clip(v, lo, hi)\<close>\<close>

definition np_clip :: "real \<Rightarrow> real \<Rightarrow> real \<Rightarrow> real" where
  "np_clip v lo hi = min (max v lo) hi"

text \<open>
  Line 260: \<^verbatim>\<open>np.clip(128 * 4 ** (-np.log10(n_points)), 0.05, 64)\<close>. For no points
  \<^verbatim>\<open>np.log10(0)\<close> is minus infinity, the power is infinite and the clip gives 64.
\<close>

definition magic_number :: "nat \<Rightarrow> real" where
  "magic_number n_points =
     (if n_points = 0 then 64
      else np_clip (128 * 4 powr (- log 10 (real n_points))) 0.05 64)"

text \<open>
  Python's \<^verbatim>\<open>int\<close> of a float: truncation towards zero, ValueError for NaN,
  OverflowError for an infinity.
\<close>

definition int_trunc :: "real \<Rightarrow> int" where
  "int_trunc v = (if 0 \<le> v then \<lfloor>v\<rfloor> else \<lceil>v\<rceil>)"

definition py_int :: "npfloat \<Rightarrow> pyerror + int" where
  "py_int f =
     (case f of
        Num v \<Rightarrow> Inr (int_trunc v)
      | PosInf \<Rightarrow> Inl OverflowError
      | NegInf \<Rightarrow> Inl OverflowError
      | NaN \<Rightarrow> Inl ValueError)"

text \<open>Lines 257 to 266: the pair of \<^verbatim>\<open>point_size\<close> and \<^verbatim>\<open>alpha\<close>.\<close>

definition size_alpha_heuristics ::
  "nat \<Rightarrow> bool \<Rightarrow> npfloat \<times> npfloat \<Rightarrow> npfloat \<Rightarrow> pyerror + (pyval \<times> pyval)"
where
  "size_alpha_heuristics n_points force fig_size dots =
     (if n_points < 100000 \<or> force then
        (let magic = magic_number n_points;
             point_scale_factor = np_sqrt (np_times (fst fig_size) (snd fig_size))
         in Inr (PyFloat (np_times (Num magic) (np_divide point_scale_factor (Num 2))),
                 PyFloat (Num (np_clip magic 0.05 1))))
      else
        and_then (py_int (np_times (np_sqrt (np_times (fst fig_size) (snd fig_size))) dots))
          (\<lambda>i. Inr (PyInt (i div 2048), PyFloat (Num 1))))"

text \<open>
  Lines 268 to 272: \<^verbatim>\<open>if key in render_plot_kwds: v = render_plot_kwds.pop(key)\<close>,
  as the pair of the value and the remaining keywords.
\<close>

definition pop_or :: "string \<Rightarrow> pyval \<Rightarrow> (string \<rightharpoonup> pyval) \<Rightarrow> pyval \<times> (string \<rightharpoonup> pyval)" where
  "pop_or k computed kwds =
     (case kwds k of None \<Rightarrow> (computed, kwds) | Some v \<Rightarrow> (v, kwds(k := None)))"

section \<open>The static plot: \<^verbatim>\<open>create_plot\<close>\<close>

text \<open>Lines 223 and 224.\<close>

definition marker_colors :: "color list option \<Rightarrow> color list \<Rightarrow> color list" where
  "marker_colors marker_array color_list =
     (case marker_array of None \<Rightarrow> color_list | Some given \<Rightarrow> given)"

text \<open>Lines 180 to 184.\<close>

definition wrap_highlight_labels ::
  "('cmap, 'fig, 'html) library \<Rightarrow> int \<Rightarrow> string list option \<Rightarrow> pyerror + string list option"
where
  "wrap_highlight_labels lib wrap_width highlight =
     (case highlight of
        None \<Rightarrow> Inr None
      | Some names \<Rightarrow> and_then (wrap_labels lib wrap_width names) (\<lambda>ws. Inr (Some ws)))"

text \<open>
  The body of \<^verbatim>\<open>create_plot\<close> up to the call of \<^verbatim>\<open>render_plot\<close>: the statements in
  the order of the source, giving the arguments of that call.
\<close>

definition render_plot_arguments ::
  "('cmap, 'fig, 'html) library \<Rightarrow> 'cmap create_plot_args \<Rightarrow> pyerror + render_plot_call"
where
  "render_plot_arguments lib a =
     (let names = unique_non_noise_labels (labels a) (noise_label a) in
      and_then
        (label_locations lib (use_medoids a) (data_map_coords a) (labels a) (noise_label a))
      (\<lambda>locations. and_then (wrap_labels lib (label_wrap_width a) names)
      (\<lambda>label_text. and_then
        (wrap_highlight_labels lib (label_wrap_width a) (highlight_labels a))
      (\<lambda>highlight. and_then (color_stage lib a locations)
      (\<lambda>(color_list, color_map). and_then (label_colors color_map names)
      (\<lambda>colors. and_then
        (label_text_colors lib (color_label_text a) (darkmode a) colors)
      (\<lambda>text_colors. and_then
        (label_size_adjustments (dynamic_label_size a) (figsize a) (render_plot_kwds a)
           (labels a) (noise_label a))
      (\<lambda>adjustments. and_then
        (size_alpha_heuristics (length (data_map_coords a)) (force_matplotlib a)
           (figsize a) (dpi a))
      (\<lambda>(heuristic_size, heuristic_alpha).
         (let (point_size, kwds1) = pop_or ''point_size'' heuristic_size (render_plot_kwds a);
              (alpha, kwds2) = pop_or ''alpha'' heuristic_alpha kwds1
          in and_then (label_colors color_map names)
               (\<lambda>highlight_colors.
                  Inr \<lparr> rp_data_map_coords = data_map_coords a,
                        rp_color_list = marker_colors (marker_color_array a) color_list,
                        rp_label_text = label_text,
                        rp_label_locations = locations,
                        rp_title = title a,
                        rp_sub_title = sub_title a,
                        rp_point_size = point_size,
                        rp_alpha = alpha,
                        rp_label_text_colors =
                          (if \<not> color_label_text a then None else text_colors),
                        rp_label_arrow_colors =
                          (if \<not> color_label_arrows a then None
                           else label_arrow_colors (color_label_arrows a) colors),
                        rp_highlight_colors = highlight_colors,
                        rp_figsize = figsize a,
                        rp_noise_color = noise_color a,
                        rp_label_size_adjustments = adjustments,
                        rp_dpi = dpi a,
                        rp_force_matplotlib = force_matplotlib a,
                        rp_darkmode = darkmode a,
                        rp_highlight_labels = highlight,
                        rp_kwds = kwds2 \<rparr>)))))))))))"

text \<open>\<^verbatim>\<open>fig, ax = render_plot(...); return fig, ax\<close>\<close>

definition create_plot ::
  "('cmap, 'fig, 'html) library \<Rightarrow> 'cmap create_plot_args \<Rightarrow> pyerror + 'fig"
where
  "create_plot lib a = and_then (render_plot_arguments lib a) (render_plot lib)"

section \<open>The interactive plot: label dataframe and colour map\<close>

text \<open>\<^verbatim>\<open>tuple(int(c * 255) for c in to_rgb(color))\<close>\<close>

definition int_rgb :: "('cmap, 'fig, 'html) library \<Rightarrow> color \<Rightarrow> pyerror + rgb" where
  "int_rgb lib c =
     and_then (to_rgb lib c)
       (\<lambda>(r, g, b). Inr (int_trunc (r * 255), int_trunc (g * 255), int_trunc (b * 255)))"

text \<open>
  Lines 426 to 438: one dataframe for each layer, concatenated in the order of the
  layers.
\<close>

definition label_dataframe ::
  "('cmap, 'fig, 'html) library \<Rightarrow> 'cmap create_interactive_plot_args \<Rightarrow> pyerror + label_row list"
where
  "label_dataframe lib a =
     and_then
       (comprehension
          (\<lambda>layer. label_text_and_polygon_dataframes lib layer (data_map_coords a)
             (noise_label a) (use_medoids a) (cluster_boundary_polygons a) (polygon_alpha a))
          (label_layers a))
       (\<lambda>frames. Inr (concat frames))"

text \<open>\<^verbatim>\<open>deep_palette(colors)\<close> when not in dark mode, \<^verbatim>\<open>pastel_palette(colors)\<close> otherwise.\<close>

definition text_variant ::
  "('cmap, 'fig, 'html) library \<Rightarrow> bool \<Rightarrow> color list \<Rightarrow> pyerror + color list"
where
  "text_variant lib dark colors =
     (if \<not> dark then deep_palette lib colors else pastel_palette lib colors)"

text \<open>
  Lines 440 to 495: the pair of \<^verbatim>\<open>color_map\<close> and \<^verbatim>\<open>text_palette\<close>. Without a map
  of the caller's, the palette is generated at the anchors of the label dataframe and
  zipped with its labels; with one, every item of the map is converted.
\<close>

definition interactive_colors ::
  "('cmap, 'fig, 'html) library \<Rightarrow> 'cmap create_interactive_plot_args \<Rightarrow> label_row list \<Rightarrow>
   pyerror + ((string \<rightharpoonup> rgb) \<times> rgb list)"
where
  "interactive_colors lib a frame =
     (case label_color_map a of
        None \<Rightarrow>
          and_then
            (generate_palette lib (cmap a) (data_map_coords a)
               (map (\<lambda>row. (row_x row, row_y row)) frame)
               (palette_hue_shift a) (palette_hue_radius_dependence a))
          (\<lambda>palette. and_then (text_variant lib (darkmode a) palette)
          (\<lambda>variant. and_then (comprehension (int_rgb lib) variant)
          (\<lambda>text_palette. and_then (comprehension (int_rgb lib) palette)
          (\<lambda>int_palette.
             Inr (dict_of (zip (map row_label frame) int_palette), text_palette)))))
      | Some given \<Rightarrow>
          and_then
            (comprehension (\<lambda>(l, c). and_then (int_rgb lib c) (\<lambda>v. Inr (l, v))) given)
          (\<lambda>items. and_then (comprehension (lookup (dict_of given)) (map row_label frame))
          (\<lambda>colors. and_then (text_variant lib (darkmode a) colors)
          (\<lambda>variant. and_then (comprehension (int_rgb lib) variant)
          (\<lambda>text_palette. Inr (dict_of items, text_palette))))))"

text \<open>
  Lines 497 to 506: the colour columns of the label dataframe. \<^verbatim>\<open>text_palette.T[0]\<close>
  raises IndexError for an empty palette (an array of shape (0,)), and pandas raises
  ValueError for a column whose length is not that of the frame. This is pandas on a
  frame with rows; a frame without rows takes the index of the first column assigned to
  it.
\<close>

definition color_label_dataframe ::
  "bool \<Rightarrow> bool \<Rightarrow> rgb list \<Rightarrow> label_row list \<Rightarrow> pyerror + colored_label_row list"
where
  "color_label_dataframe colored dark text_palette frame =
     (if colored then
        (if text_palette = [] then Inl IndexError
         else if length text_palette \<noteq> length frame then Inl ValueError
         else Inr (map (\<lambda>(row, (r, g, b)).
                          \<lparr> row_x = row_x row, row_y = row_y row, row_label = row_label row,
                            row_r = r, row_g = g, row_b = b, row_a = 64 \<rparr>)
                     (zip frame text_palette)))
      else
        Inr (map (\<lambda>row.
                    \<lparr> row_x = row_x row, row_y = row_y row, row_label = row_label row,
                      row_r = (if \<not> dark then 15 else 240),
                      row_g = (if \<not> dark then 15 else 240),
                      row_b = (if \<not> dark then 15 else 240), row_a = 64 \<rparr>)
               frame))"

text \<open>Lines 508 to 510: the labels of the frame, wrapped.\<close>

definition wrap_label_dataframe ::
  "('cmap, 'fig, 'html) library \<Rightarrow> int \<Rightarrow> colored_label_row list \<Rightarrow> pyerror + colored_label_row list"
where
  "wrap_label_dataframe lib wrap_width frame =
     comprehension
       (\<lambda>row. and_then (textwrap_fill lib (row_label row) wrap_width)
                 (\<lambda>w. Inr (row\<lparr>row_label := w\<rparr>)))
       frame"

section \<open>The interactive plot: point colours\<close>

type_synonym rgb8 = "8 word \<times> 8 word \<times> 8 word"

text \<open>
  A tuple of Python integers stored into an array of dtype \<^verbatim>\<open>np.uint8\<close>. The
  components come from \<^verbatim>\<open>to_rgb\<close>, times 255; for components from 0 to 255 the
  conversion is exact. An integer outside this range wraps around here, as in numpy 1;
  numpy 2 raises OverflowError for it.
\<close>

definition uint8_rgb :: "rgb \<Rightarrow> rgb8" where
  "uint8_rgb c = (case c of (r, g, b) \<Rightarrow> (word_of_int r, word_of_int g, word_of_int b))"

text \<open>
  \<^verbatim>\<open>vector[mask] = value\<close> with a boolean mask: IndexError when the mask and the
  array differ in length.
\<close>

definition masked_assign :: "'a list \<Rightarrow> bool list \<Rightarrow> 'a \<Rightarrow> pyerror + 'a list" where
  "masked_assign vector msk v =
     (if length msk \<noteq> length vector then Inl IndexError
      else Inr (map (\<lambda>(old, hit). if hit then v else old) (zip vector msk)))"

text \<open>A for loop over a list whose body updates a state and may raise.\<close>

fun for_each :: "('s \<Rightarrow> 'a \<Rightarrow> pyerror + 's) \<Rightarrow> 'a list \<Rightarrow> 's \<Rightarrow> pyerror + 's" where
  "for_each body [] s = Inr s"
| "for_each body (v # vs) s = and_then (body s v) (for_each body vs)"

text \<open>
  Lines 531 to 533: \<^verbatim>\<open>label_map\<close>, the items of the dictionary in insertion order:
  the sorted labels of the layer with their positions, then the noise label with -1 if
  the layer has no noise.
\<close>

definition label_map :: "string list \<Rightarrow> string \<Rightarrow> (string \<times> int) list" where
  "label_map layer noise =
     (let items = zip (np_unique layer) (map int [0..<length (np_unique layer)])
      in if noise \<notin> set (map fst items) then items @ [(noise, - 1)] else items)"

text \<open>Line 534: \<^verbatim>\<open>label_unmap = {i: n for n, i in label_map.items()}\<close>\<close>

definition label_unmap :: "(string \<times> int) list \<Rightarrow> (int \<times> string) list" where
  "label_unmap items = map (\<lambda>(n, i). (i, n)) items"

text \<open>
  Lines 535 to 542, the body of the loop over the layers. The inner loop runs over the
  keys of \<^verbatim>\<open>label_unmap\<close> and reads \<^verbatim>\<open>label_unmap[label]\<close>, that is, over its
  items. In the assignment the right-hand side \<^verbatim>\<open>color_map[...]\<close> is evaluated
  before the mask is applied. \<^verbatim>\<open>pd.Series(labels).map(label_map)\<close> is the position
  of each label, \<open>None\<close> (NaN) for a label that is not a key.
\<close>

definition paint_layer ::
  "(string \<rightharpoonup> rgb) \<Rightarrow> string \<Rightarrow> rgb8 list \<Rightarrow> string list \<Rightarrow> pyerror + rgb8 list"
where
  "paint_layer color_map noise color_vector layer =
     (let items = label_map layer noise;
          unmap = label_unmap items;
          cluster_label_vector = map (dict_of items) layer
      in and_then (lookup (dict_of items) noise)
           (\<lambda>noise_index.
              for_each
                (\<lambda>vector (i, n).
                   and_then (lookup color_map n)
                     (\<lambda>c. masked_assign vector (eq_mask cluster_label_vector (Some i))
                            (uint8_rgb c)))
                (filter (\<lambda>(i, n). i \<noteq> noise_index) unmap)
                color_vector))"

text \<open>Lines 524 to 550: \<^verbatim>\<open>color_vector\<close>.\<close>

definition color_vector ::
  "('cmap, 'fig, 'html) library \<Rightarrow> 'cmap create_interactive_plot_args \<Rightarrow> (string \<rightharpoonup> rgb) \<Rightarrow>
   pyerror + rgb8 list"
where
  "color_vector lib a color_map =
     (case marker_color_array a of
        None \<Rightarrow>
          and_then (int_rgb lib (noise_color a))
            (\<lambda>noise_rgb.
               for_each (paint_layer color_map (noise_label a)) (rev (label_layers a))
                 (replicate (length (data_map_coords a)) (uint8_rgb noise_rgb)))
      | Some given \<Rightarrow>
          and_then (comprehension (int_rgb lib) given) (\<lambda>cs. Inr (map uint8_rgb cs)))"

section \<open>The interactive plot: \<^verbatim>\<open>create_interactive_plot\<close>\<close>

text \<open>
  \<^verbatim>\<open>point_dataframe[name] = values\<close> for an optional array: pandas raises
  ValueError when the length is not the number of rows (of a frame with rows; a frame
  without rows takes the index of the first column assigned to it).
\<close>

definition optional_column :: "nat \<Rightarrow> 'v list option \<Rightarrow> pyerror + 'v option list" where
  "optional_column n_rows column =
     (case column of
        None \<Rightarrow> Inr (replicate n_rows None)
      | Some vs \<Rightarrow> if length vs \<noteq> n_rows then Inl ValueError else Inr (map Some vs))"

text \<open>
  Lines 552 to 555: \<^verbatim>\<open>color_vector.T[0]\<close> raises IndexError for an empty vector (an
  array of shape (0,)); the three columns have the length of the vector.
\<close>

definition color_columns :: "nat \<Rightarrow> rgb8 list \<Rightarrow> pyerror + rgb8 list" where
  "color_columns n_rows vector =
     (if vector = [] then Inl IndexError
      else if length vector \<noteq> n_rows then Inl ValueError
      else Inr vector)"

text \<open>Lines 512 to 555: the point dataframe.\<close>

definition point_dataframe ::
  "('cmap, 'fig, 'html) library \<Rightarrow> 'cmap create_interactive_plot_args \<Rightarrow> (string \<rightharpoonup> rgb) \<Rightarrow>
   pyerror + point_row list"
where
  "point_dataframe lib a color_map =
     (let n_rows = length (data_map_coords a) in
      and_then (optional_column n_rows (hover_text a))
      (\<lambda>hover. and_then (optional_column n_rows (marker_size_array a))
      (\<lambda>sizes. and_then (color_vector lib a color_map)
      (\<lambda>vector. and_then (color_columns n_rows vector)
      (\<lambda>colors.
         Inr (map (\<lambda>((x, y), h, s, (r, g, b)).
                     \<lparr> pt_x = x, pt_y = y, pt_hover_text = h, pt_size = s,
                       pt_r = r, pt_g = g, pt_b = b, pt_a = 180 \<rparr>)
                (zip (data_map_coords a) (zip hover (zip sizes colors)))))))))"

text \<open>
  The body of \<^verbatim>\<open>create_interactive_plot\<close> after the test for no layers and up to
  the call of \<^verbatim>\<open>render_html\<close>: the arguments of that call.
\<close>

definition render_html_arguments ::
  "('cmap, 'fig, 'html) library \<Rightarrow> 'cmap create_interactive_plot_args \<Rightarrow> pyerror + render_html_call"
where
  "render_html_arguments lib a =
     and_then (label_dataframe lib a)
     (\<lambda>frame. and_then (interactive_colors lib a frame)
     (\<lambda>(color_map, text_palette). and_then
        (color_label_dataframe (color_label_text a \<or> color_cluster_boundaries a) (darkmode a)
           text_palette frame)
     (\<lambda>colored. and_then (wrap_label_dataframe lib (label_wrap_width a) colored)
     (\<lambda>wrapped. and_then (point_dataframe lib a color_map)
     (\<lambda>points.
        Inr \<lparr> rh_point_dataframe = points,
              rh_label_dataframe = wrapped,
              rh_inline_data = inline_data a,
              rh_color_label_text = color_label_text a,
              rh_darkmode = darkmode a,
              rh_kwds = render_html_kwds a \<rparr>)))))"

text \<open>
  \<^verbatim>\<open>if len(label_layers) == 0: return None\<close>, and at the end
  \<^verbatim>\<open>return InteractiveFigure(html_str, width=width, height=height)\<close>.
\<close>

definition create_interactive_plot ::
  "('cmap, 'fig, 'html) library \<Rightarrow> 'cmap create_interactive_plot_args \<Rightarrow>
   pyerror + 'html interactive_figure option"
where
  "create_interactive_plot lib a =
     (if length (label_layers a) = 0 then Inr None
      else
        and_then (render_html_arguments lib a)
          (\<lambda>call. and_then (render_html lib call)
             (\<lambda>html_str. Inr (Some (InteractiveFigure html_str (width a) (height a))))))"

section \<open>The palette functions, as the specification describes them\<close>

text \<open>
  Modelled from the spec: \<^verbatim>\<open>palette_from_datamap\<close> and
  \<^verbatim>\<open>palette_from_cmap_and_datamap\<close> of the module \<^verbatim>\<open>datamapplot.palette_handling\<close>,
  which is not among the sources. The specification says of a palette that it is
  ``generated from spatial layout (hue varies with angle/radius from data centroid) or
  derived from a supplied colormap'', that ``palette functions return one color per
  unique non-noise label'', and that ``palette generation is a pure function of point
  positions and anchor positions''. So the palette has one colour for each anchor, and
  the colour of the \<open>k\<close>-th anchor is a function of the angles and radii of the anchors
  seen from the centroid of the data, and of the hue parameters or the colour map. Which
  function it is the specification does not say: it is the parameter \<open>hue_color\<close>
  (\<open>cmap_color\<close> for a colour map).
\<close>

definition polar_coordinates :: "point \<Rightarrow> point \<Rightarrow> real \<times> real" where
  "polar_coordinates centre p =
     (Arg (Complex (fst p - fst centre) (snd p - snd centre)),
      cmod (Complex (fst p - fst centre) (snd p - snd centre)))"

definition palette_from_datamap_spec ::
  "((real \<times> real) list \<Rightarrow> real \<Rightarrow> real \<Rightarrow> nat \<Rightarrow> color) \<Rightarrow>
   point list \<Rightarrow> point list \<Rightarrow> real \<Rightarrow> real \<Rightarrow> color list"
where
  "palette_from_datamap_spec hue_color coords locations hue_shift radius_weight_power =
     (let anchors = map (polar_coordinates (mean_axis0 coords)) locations
      in map (hue_color anchors hue_shift radius_weight_power) [0..<length locations])"

definition palette_from_cmap_and_datamap_spec ::
  "('cmap \<Rightarrow> (real \<times> real) list \<Rightarrow> real \<Rightarrow> nat \<Rightarrow> color) \<Rightarrow>
   'cmap \<Rightarrow> point list \<Rightarrow> point list \<Rightarrow> real \<Rightarrow> color list"
where
  "palette_from_cmap_and_datamap_spec cmap_color c coords locations radius_weight_power =
     (let anchors = map (polar_coordinates (mean_axis0 coords)) locations
      in map (cmap_color c anchors radius_weight_power) [0..<length locations])"


section \<open>A small instance\<close>

text \<open>
  A library and arguments on which the definitions can be run: four points, two clusters
  and one noise point. The functions of this library are stand-ins with the interface of
  the imported ones: the palette functions return one colour of a fixed list for each
  anchor (they are the palette functions of the specification with
  \<open>example_hue_color\<close>), the two palette variants return one fixed colour for each
  colour given, \<^verbatim>\<open>textwrap.fill\<close> leaves a label that fits in one line as it is
  but for the whitespace at its end, which it drops, \<^verbatim>\<open>to_rgb\<close> knows six colours,
  the label dataframe has one row for each non-noise label of a layer, and the two
  renderers return the arguments they are called with.
\<close>

definition example_fill :: "string \<Rightarrow> int \<Rightarrow> pyerror + string" where
  "example_fill s w =
     (if w \<le> 0 then Inl ValueError
      else Inr (rev (dropWhile (\<lambda>c. c = CHR '' '') (rev s))))"



definition example_palette :: "nat \<Rightarrow> color list" where
  "example_palette k = map (\<lambda>i. [''#1f77b4'', ''#ff7f0e'', ''#2ca02c''] ! (i mod 3)) [0..<k]"

definition example_to_rgb :: "color \<Rightarrow> pyerror + (real \<times> real \<times> real)" where
  "example_to_rgb c =
     (case map_of
        [(''#999999'', (153, 153, 153)), (''#1f77b4'', (31, 119, 180)),
         (''#ff7f0e'', (255, 127, 14)), (''#2ca02c'', (44, 160, 44)),
         (''#222222'', (34, 34, 34)), (''#dddddd'', (221, 221, 221))] c of
        None \<Rightarrow> Inl ValueError
      | Some (r, g, b) \<Rightarrow> Inr (r / 255, g / 255, b / 255))"

definition example_library :: "(unit, render_plot_call, render_html_call) library" where
  "example_library =
     \<lparr> medoid = (\<lambda>rows. case rows of [] \<Rightarrow> Inl ValueError | p # ps \<Rightarrow> Inr p),
       palette_from_datamap = (\<lambda>coords locations hue_shift weight.
          Inr (example_palette (length locations))),
       palette_from_cmap_and_datamap = (\<lambda>c coords locations weight.
          Inr (example_palette (length locations))),
       deep_palette = (\<lambda>colors. Inr (map (\<lambda>c. ''#222222'') colors)),
       pastel_palette = (\<lambda>colors. Inr (map (\<lambda>c. ''#dddddd'') colors)),
       textwrap_fill = example_fill,
       to_rgb = example_to_rgb,
       render_plot = (\<lambda>call. Inr call),
       label_text_and_polygon_dataframes = (\<lambda>layer coords noise medoids polygons alpha.
          Inr (map (\<lambda>l. \<lparr> row_x = 0, row_y = 0, row_label = l \<rparr>)
                 (unique_non_noise_labels layer noise))),
       render_html = (\<lambda>call. Inr call) \<rparr>"

definition example_plot_args :: "unit create_plot_args" where
  "example_plot_args =
     \<lparr> data_map_coords = [(0, 0), (2, 4), (10, 10), (5, 5)],
       noise_label = ''Unlabelled'',
       noise_color = ''#999999'',
       color_label_text = True,
       label_wrap_width = 16,
       label_color_map = None,
       darkmode = False,
       palette_hue_shift = 0,
       palette_hue_radius_dependence = 1,
       use_medoids = False,
       cmap = None,
       marker_color_array = None,
       labels = [''b'', ''b'', ''a'', ''Unlabelled''],
       title = None,
       sub_title = None,
       color_label_arrows = False,
       figsize = (Num 12, Num 12),
       dynamic_label_size = False,
       dpi = Num 100,
       force_matplotlib = False,
       highlight_labels = None,
       render_plot_kwds = Map.empty \<rparr>"

definition example_plot_call :: render_plot_call where
  "example_plot_call =
     \<lparr> rp_data_map_coords = [(0, 0), (2, 4), (10, 10), (5, 5)],
       rp_color_list = [''#ff7f0e'', ''#ff7f0e'', ''#1f77b4'', ''#999999''],
       rp_label_text = [''a'', ''b''],
       rp_label_locations = [(10, 10), (1, 2)],
       rp_title = None,
       rp_sub_title = None,
       rp_point_size = PyFloat (Num (magic_number 4 * 6)),
       rp_alpha = PyFloat (Num (np_clip (magic_number 4) 0.05 1)),
       rp_label_text_colors = Some [''#222222'', ''#222222''],
       rp_label_arrow_colors = None,
       rp_highlight_colors = [''#1f77b4'', ''#ff7f0e''],
       rp_figsize = (Num 12, Num 12),
       rp_noise_color = ''#999999'',
       rp_label_size_adjustments = [Num 0, Num 0],
       rp_dpi = Num 100,
       rp_force_matplotlib = False,
       rp_darkmode = False,
       rp_highlight_labels = None,
       rp_kwds = Map.empty \<rparr>"

text \<open>The same call with a point size, an alpha and one more keyword.\<close>

definition example_sized_args :: "unit create_plot_args" where
  "example_sized_args =
     example_plot_args
       \<lparr> render_plot_kwds :=
           [''point_size'' \<mapsto> PyInt 3, ''alpha'' \<mapsto> PyFloat (Num 0.5),
            ''marker_type'' \<mapsto> PyStr ''o''] \<rparr>"

text \<open>The same points with other names for the two clusters, and the call it leads to.\<close>

definition example_relabelled_args :: "unit create_plot_args" where
  "example_relabelled_args = example_plot_args \<lparr> labels := [''d'', ''d'', ''c'', ''Unlabelled''] \<rparr>"

definition example_relabelled_call :: render_plot_call where
  "example_relabelled_call = example_plot_call \<lparr> rp_label_text := [''c'', ''d''] \<rparr>"





text \<open>
  An interactive plot of the same points with two label layers, the finer one first,
  and the call of \<^verbatim>\<open>render_html\<close> it leads to; then the same arguments with no
  layer.
\<close>

definition example_interactive_args :: "unit create_interactive_plot_args" where
  "example_interactive_args =
     \<lparr> data_map_coords = [(0, 0), (2, 4), (10, 10), (5, 5)],
       noise_label = ''Unlabelled'',
       noise_color = ''#999999'',
       color_label_text = True,
       label_wrap_width = 16,
       label_color_map = None,
       darkmode = False,
       palette_hue_shift = 0,
       palette_hue_radius_dependence = 1,
       use_medoids = False,
       cmap = None,
       marker_color_array = None,
       label_layers =
         [[''b'', ''b'', ''Unlabelled'', ''Unlabelled''], [''c'', ''c'', ''c'', ''Unlabelled'']],
       hover_text = None,
       inline_data = True,
       width = PyStr ''100%'',
       height = PyInt 800,
       marker_size_array = None,
       cluster_boundary_polygons = False,
       color_cluster_boundaries = True,
       polygon_alpha = 0.1,
       render_html_kwds = Map.empty \<rparr>"

definition example_html_call :: render_html_call where
  "example_html_call =
     \<lparr> rh_point_dataframe =
         [\<lparr> pt_x = 0, pt_y = 0, pt_hover_text = None, pt_size = None,
            pt_r = 31, pt_g = 119, pt_b = 180, pt_a = 180 \<rparr>,
          \<lparr> pt_x = 2, pt_y = 4, pt_hover_text = None, pt_size = None,
            pt_r = 31, pt_g = 119, pt_b = 180, pt_a = 180 \<rparr>,
          \<lparr> pt_x = 10, pt_y = 10, pt_hover_text = None, pt_size = None,
            pt_r = 255, pt_g = 127, pt_b = 14, pt_a = 180 \<rparr>,
          \<lparr> pt_x = 5, pt_y = 5, pt_hover_text = None, pt_size = None,
            pt_r = 153, pt_g = 153, pt_b = 153, pt_a = 180 \<rparr>],
       rh_label_dataframe =
         [\<lparr> row_x = 0, row_y = 0, row_label = ''b'',
            row_r = 34, row_g = 34, row_b = 34, row_a = 64 \<rparr>,
          \<lparr> row_x = 0, row_y = 0, row_label = ''c'',
            row_r = 34, row_g = 34, row_b = 34, row_a = 64 \<rparr>],
       rh_inline_data = True,
       rh_color_label_text = True,
       rh_darkmode = False,
       rh_kwds = Map.empty \<rparr>"

definition example_no_layers_args :: "unit create_interactive_plot_args" where
  "example_no_layers_args = example_interactive_args \<lparr> label_layers := [] \<rparr>"

text \<open>
  Malformed calls: labels shorter than the coordinates, a \<^verbatim>\<open>label_color_map\<close> without
  the label \<^verbatim>\<open>b\<close>, and an interactive plot whose \<^verbatim>\<open>label_color_map\<close> lacks the
  label \<^verbatim>\<open>c\<close> of the second layer.
\<close>

definition example_mismatched_args :: "unit create_plot_args" where
  "example_mismatched_args = example_plot_args \<lparr> labels := [''b'', ''a''] \<rparr>"

definition example_missing_color_args :: "unit create_plot_args" where
  "example_missing_color_args =
     example_plot_args \<lparr> label_color_map := Some [(''a'', ''#1f77b4'')] \<rparr>"

definition example_missing_interactive_args :: "unit create_interactive_plot_args" where
  "example_missing_interactive_args =
     example_interactive_args \<lparr> label_color_map := Some [(''b'', ''#1f77b4'')] \<rparr>"

text \<open>
  A library every function of which raises, and an interactive plot with no label layer
  and a \<^verbatim>\<open>hover_text\<close> for one point where the data map has four; then the same
  arguments with one label layer.
\<close>

definition failing_library :: "(unit, render_plot_call, render_html_call) library" where
  "failing_library =
     \<lparr> medoid = (\<lambda>rows. Inl (LibraryError ''medoid'')),
       palette_from_datamap = (\<lambda>coords locations hue_shift weight.
          Inl (LibraryError ''palette_from_datamap'')),
       palette_from_cmap_and_datamap = (\<lambda>c coords locations weight.
          Inl (LibraryError ''palette_from_cmap_and_datamap'')),
       deep_palette = (\<lambda>colors. Inl (LibraryError ''deep_palette'')),
       pastel_palette = (\<lambda>colors. Inl (LibraryError ''pastel_palette'')),
       textwrap_fill = (\<lambda>s w. Inl (LibraryError ''textwrap.fill'')),
       to_rgb = (\<lambda>c. Inl (LibraryError ''to_rgb'')),
       render_plot = (\<lambda>call. Inl (LibraryError ''render_plot'')),
       label_text_and_polygon_dataframes = (\<lambda>layer coords noise medoids polygons alpha.
          Inl (LibraryError ''label_text_and_polygon_dataframes'')),
       render_html = (\<lambda>call. Inl (LibraryError ''render_html'')) \<rparr>"

definition example_unchecked_args :: "unit create_interactive_plot_args" where
  "example_unchecked_args =
     example_interactive_args \<lparr> label_layers := [], hover_text := Some [''first point''] \<rparr>"

definition example_one_layer_args :: "unit create_interactive_plot_args" where
  "example_one_layer_args =
     example_unchecked_args \<lparr> label_layers := [[''b'', ''b'', ''b'', ''Unlabelled'']] \<rparr>"

section \<open>Facts about sequencing and array operations\<close>

lemma and_then_Inl [simp]: "and_then (Inl e) f = Inl e"
  by (simp add: and_then_def)

lemma and_then_Inr [simp]: "and_then (Inr v) f = f v"
  by (simp add: and_then_def)

lemma and_then_eq_Inr: "and_then m f = Inr r \<longleftrightarrow> (\<exists>v. m = Inr v \<and> f v = Inr r)"
  by (cases m) simp_all

lemma and_then_eq_Inl: "and_then m f = Inl e \<longleftrightarrow> m = Inl e \<or> (\<exists>v. m = Inr v \<and> f v = Inl e)"
  by (cases m) simp_all

lemma comprehension_Inr_iff:
  "comprehension f vs = Inr ws \<longleftrightarrow> list_all2 (\<lambda>v w. f v = Inr w) vs ws"
proof (induction vs arbitrary: ws)
  case Nil
  then show ?case by auto
next
  case (Cons v vs)
  show ?case
  proof (cases "f v")
    case (Inl e)
    then show ?thesis by (auto simp: list_all2_Cons1)
  next
    case (Inr w)
    then show ?thesis
      using Cons.IH by (cases "comprehension f vs") (auto simp: list_all2_Cons1)
  qed
qed

lemma comprehension_Inl:
  "comprehension f vs = Inl e \<Longrightarrow> \<exists>v \<in> set vs. f v = Inl e"
proof (induction vs)
  case Nil
  then show ?case by simp
next
  case (Cons v vs)
  then show ?case by (auto simp: and_then_eq_Inl)
qed

lemma comprehension_pure: "comprehension (\<lambda>v. Inr (g v)) vs = Inr (map g vs)"
  by (induction vs) simp_all

lemma comprehension_length: "comprehension f vs = Inr ws \<Longrightarrow> length ws = length vs"
  by (simp add: comprehension_Inr_iff list_all2_lengthD)

lemma set_np_unique [simp]: "set (np_unique vs) = set vs"
  by (simp add: np_unique_def)

lemma distinct_remdups_adj_sorted:
  "sorted (vs :: 'a :: linorder list) \<Longrightarrow> distinct (remdups_adj vs)"
proof (induction vs)
  case Nil
  then show ?case by simp
next
  case (Cons v vs)
  show ?case
  proof (cases "remdups_adj vs")
    case Nil
    then show ?thesis by simp
  next
    case (Cons y ys)
    have y: "y = hd vs" "vs \<noteq> []"
      using Cons hd_remdups_adj [of vs] by auto
    have least: "\<forall>x \<in> set vs. y \<le> x"
      using Cons.prems y by (cases vs) auto
    have "v \<le> y"
      using Cons.prems y by (cases vs) auto
    have "v \<notin> set (y # ys)" if "v \<noteq> y"
    proof
      assume "v \<in> set (y # ys)"
      then have "v \<in> set vs"
        using Cons remdups_adj_set [of vs] by auto
      with least \<open>v \<le> y\<close> that show False by auto
    qed
    then show ?thesis
      using Cons Cons.IH Cons.prems by (auto simp: remdups_adj_Cons)
  qed
qed

lemma distinct_np_unique [simp]: "distinct (np_unique vs)"
  by (simp add: np_unique_def distinct_remdups_adj_sorted)

lemma sorted_np_unique [simp]: "sorted (np_unique vs)"
  by (simp add: np_unique_def sorted_remdups_adj)

lemma set_unique_non_noise_labels:
  "set (unique_non_noise_labels vs noise) = set vs - {noise}"
  by (auto simp: unique_non_noise_labels_def)

lemma distinct_unique_non_noise_labels [simp]: "distinct (unique_non_noise_labels vs noise)"
  by (simp add: unique_non_noise_labels_def)

lemma sorted_unique_non_noise_labels [simp]: "sorted (unique_non_noise_labels vs noise)"
  using sorted_filter [of "\<lambda>v. v" "np_unique vs"] by (simp add: unique_non_noise_labels_def)

lemma mask_select_eq_mask:
  "mask_select rows (eq_mask vs i) = Inr sel \<longleftrightarrow>
     length vs = length rows \<and> sel = [q. (q, v) \<leftarrow> zip rows vs, v = i]"
proof -
  have "map fst (filter snd (zip rows (map (\<lambda>v. v = i) vs))) = [q. (q, v) \<leftarrow> zip rows vs, v = i]"
  proof (induction rows arbitrary: vs)
    case Nil
    then show ?case by simp
  next
    case (Cons r rows)
    then show ?case by (cases vs) auto
  qed
  then show ?thesis by (auto simp: mask_select_def eq_mask_def)
qed

lemma selected_rows_nonempty:
  assumes "length vs = length rows" and "i \<in> set vs"
  shows "[q. (q, v) \<leftarrow> zip rows vs, v = i] \<noteq> []"
proof -
  from assms(2) obtain k where k: "k < length vs" "vs ! k = i"
    by (auto simp: in_set_conv_nth)
  with assms(1) have "(rows ! k, i) \<in> set (zip rows vs)"
    by (auto simp: set_zip)
  then have "rows ! k \<in> set [q. (q, v) \<leftarrow> zip rows vs, v = i]"
    by force
  then show ?thesis by force
qed

lemma pop_or_fst: "fst (pop_or k computed kwds) = (case kwds k of None \<Rightarrow> computed | Some v \<Rightarrow> v)"
  by (simp add: pop_or_def split: option.splits)

lemma pop_or_snd: "snd (pop_or k computed kwds) = kwds(k := None)"
  by (auto simp: pop_or_def split: option.splits)

subsection \<open>Floats\<close>

lemma np_clip_bounds: "lo \<le> hi \<Longrightarrow> lo \<le> np_clip v lo hi \<and> np_clip v lo hi \<le> hi"
  by (simp add: np_clip_def)

lemma magic_number_bounds: "0.05 \<le> magic_number n \<and> magic_number n \<le> 64"
proof (cases "n = 0")
  case True
  then show ?thesis by (simp add: magic_number_def)
next
  case False
  have "(0.05 :: real) \<le> 64" by simp
  from np_clip_bounds [OF this] False show ?thesis
    by (simp add: magic_number_def)
qed

lemma max_float_large: "10 ^ 300 \<le> max_float"
  by (simp add: max_float_def)

lemma float_of_Num: "\<bar>v\<bar> \<le> max_float \<Longrightarrow> float_of v = Num v"
  by (auto simp: float_of_def)

lemma py_int_Inr: "py_int f = Inr i \<longleftrightarrow> (\<exists>v. f = Num v \<and> i = int_trunc v)"
  by (auto simp: py_int_def split: npfloat.splits)


section \<open>The statements of \<^verbatim>\<open>create_plot\<close> in sequence\<close>

lemma render_plot_arguments_cases:
  assumes "render_plot_arguments lib a = Inr call"
  obtains locations label_text highlight color_list color_map colors text_colors
    adjustments heuristic_size heuristic_alpha
  where
    "label_locations lib (use_medoids a) (data_map_coords a) (labels a) (noise_label a)
       = Inr locations"
    "wrap_labels lib (label_wrap_width a)
       (unique_non_noise_labels (labels a) (noise_label a)) = Inr label_text"
    "wrap_highlight_labels lib (label_wrap_width a) (highlight_labels a) = Inr highlight"
    "color_stage lib a locations = Inr (color_list, color_map)"
    "label_colors color_map (unique_non_noise_labels (labels a) (noise_label a)) = Inr colors"
    "label_text_colors lib (color_label_text a) (darkmode a) colors = Inr text_colors"
    "label_size_adjustments (dynamic_label_size a) (figsize a) (render_plot_kwds a)
       (labels a) (noise_label a) = Inr adjustments"
    "size_alpha_heuristics (length (data_map_coords a)) (force_matplotlib a) (figsize a) (dpi a)
       = Inr (heuristic_size, heuristic_alpha)"
    "call =
       \<lparr> rp_data_map_coords = data_map_coords a,
         rp_color_list = marker_colors (marker_color_array a) color_list,
         rp_label_text = label_text,
         rp_label_locations = locations,
         rp_title = title a,
         rp_sub_title = sub_title a,
         rp_point_size = fst (pop_or ''point_size'' heuristic_size (render_plot_kwds a)),
         rp_alpha =
           fst (pop_or ''alpha'' heuristic_alpha
                  (snd (pop_or ''point_size'' heuristic_size (render_plot_kwds a)))),
         rp_label_text_colors = (if \<not> color_label_text a then None else text_colors),
         rp_label_arrow_colors =
           (if \<not> color_label_arrows a then None
            else label_arrow_colors (color_label_arrows a) colors),
         rp_highlight_colors = colors,
         rp_figsize = figsize a,
         rp_noise_color = noise_color a,
         rp_label_size_adjustments = adjustments,
         rp_dpi = dpi a,
         rp_force_matplotlib = force_matplotlib a,
         rp_darkmode = darkmode a,
         rp_highlight_labels = highlight,
         rp_kwds =
           snd (pop_or ''alpha'' heuristic_alpha
                  (snd (pop_or ''point_size'' heuristic_size (render_plot_kwds a)))) \<rparr>"
  using assms
  unfolding render_plot_arguments_def Let_def and_then_eq_Inr split_beta
  by (elim exE conjE) (auto simp: and_then_eq_Inr)

section \<open>The small instance, evaluated\<close>

lemma example_names:
  "unique_non_noise_labels [''b'', ''b'', ''a'', ''Unlabelled''] ''Unlabelled'' = [''a'', ''b'']"
  by (simp add: unique_non_noise_labels_def np_unique_def)

lemma example_unique:
  "np_unique [''b'', ''b'', ''a'', ''Unlabelled''] = [''Unlabelled'', ''a'', ''b'']"
  by (simp add: np_unique_def)

lemma example_locations:
  "label_locations example_library False [(0, 0), (2, 4), (10, 10), (5, 5)]
     [''b'', ''b'', ''a'', ''Unlabelled''] ''Unlabelled'' = Inr [(10, 10), (1, 2)]"
  by (simp add: label_locations_def example_names label_location_def mask_select_def eq_mask_def
      mean_axis0_def)

lemma example_color_stage:
  "color_stage example_library example_plot_args [(10, 10), (1, 2)] =
     Inr ([''#ff7f0e'', ''#ff7f0e'', ''#1f77b4'', ''#999999''],
          [''Unlabelled'' \<mapsto> ''#999999'', ''a'' \<mapsto> ''#1f77b4'', ''b'' \<mapsto> ''#ff7f0e''])"
  by (simp add: color_stage_def example_plot_args_def example_library_def generate_palette_def
      example_palette_def auto_color_list_def auto_label_color_map_def example_names
      example_unique label_to_index_map_def dict_of_def palette_color_def palette_entry_def)

lemma sqrt_144: "sqrt 144 = 12"
  by (rule real_sqrt_unique) simp_all

lemma example_heuristics:
  "size_alpha_heuristics 4 False (Num 12, Num 12) (Num 100) =
     Inr (PyFloat (Num (magic_number 4 * 6)), PyFloat (Num (np_clip (magic_number 4) 0.05 1)))"
proof -
  have area: "float_of 144 = Num 144" and half: "float_of 6 = Num 6"
    by (simp_all add: float_of_def max_float_def)
  from magic_number_bounds [of 4] max_float_large
  have "\<bar>magic_number 4 * 6\<bar> \<le> max_float"
    by simp
  then have "float_of (magic_number 4 * 6) = Num (magic_number 4 * 6)"
    by (rule float_of_Num)
  then show ?thesis
    by (simp add: size_alpha_heuristics_def Let_def area half sqrt_144)
qed

lemma example_plot_arguments_kwds:
  "render_plot_arguments example_library (example_plot_args\<lparr>render_plot_kwds := k\<rparr>) =
     Inr (example_plot_call
            \<lparr> rp_point_size := fst (pop_or ''point_size'' (PyFloat (Num (magic_number 4 * 6))) k),
              rp_alpha :=
                fst (pop_or ''alpha'' (PyFloat (Num (np_clip (magic_number 4) 0.05 1)))
                       (k(''point_size'' := None))),
              rp_kwds := k(''point_size'' := None, ''alpha'' := None) \<rparr>)"
proof -
  let ?a = "example_plot_args\<lparr>render_plot_kwds := k\<rparr>"
  have sel [simp]:
    "data_map_coords ?a = [(0, 0), (2, 4), (10, 10), (5, 5)]"
    "labels ?a = [''b'', ''b'', ''a'', ''Unlabelled'']"
    "noise_label ?a = ''Unlabelled''"
    "use_medoids ?a = False"
    by (simp_all add: example_plot_args_def)
  have stage: "color_stage example_library ?a [(10, 10), (1, 2)] =
      color_stage example_library example_plot_args [(10, 10), (1, 2)]"
    by (simp add: color_stage_def example_plot_args_def)
  have wrap: "wrap_labels example_library 16 [''a'', ''b''] = Inr [''a'', ''b'']"
    by (simp add: wrap_labels_def example_library_def example_fill_def)
  have cols: "label_colors [''Unlabelled'' \<mapsto> ''#999999'', ''a'' \<mapsto> ''#1f77b4'', ''b'' \<mapsto> ''#ff7f0e'']
      [''a'', ''b''] = Inr [''#1f77b4'', ''#ff7f0e'']"
    by (simp add: label_colors_def lookup_def)
  have tcol: "label_text_colors example_library True False [''#1f77b4'', ''#ff7f0e'']
      = Inr (Some [''#222222'', ''#222222''])"
    by (simp add: label_text_colors_def example_library_def)
  have heur: "size_alpha_heuristics 4 False (Num 12, Num 12) (Num 100) =
      Inr (PyFloat (Num (magic_number 4 * 6)), PyFloat (Num (np_clip (magic_number 4) 0.05 1)))"
    by (rule example_heuristics)
  have four: "Suc (Suc (Suc (Suc 0))) = 4"
    by simp
  show ?thesis
    unfolding render_plot_arguments_def Let_def sel example_names example_locations
      stage example_color_stage and_then_Inr
    by (simp add: example_plot_args_def wrap cols tcol heur wrap_highlight_labels_def
        label_size_adjustments_def example_names marker_colors_def split_beta
        example_plot_call_def four pop_or_snd)
qed

lemma example_plot_arguments:
  "render_plot_arguments example_library example_plot_args = Inr example_plot_call"
  using example_plot_arguments_kwds [of Map.empty]
  by (simp add: example_plot_args_def example_plot_call_def pop_or_def)

lemma relabelled_names:
  "unique_non_noise_labels [''d'', ''d'', ''c'', ''Unlabelled''] ''Unlabelled'' = [''c'', ''d'']"
  by (simp add: unique_non_noise_labels_def np_unique_def)

lemma relabelled_unique:
  "np_unique [''d'', ''d'', ''c'', ''Unlabelled''] = [''Unlabelled'', ''c'', ''d'']"
  by (simp add: np_unique_def)

lemma relabelled_locations:
  "label_locations example_library False [(0, 0), (2, 4), (10, 10), (5, 5)]
     [''d'', ''d'', ''c'', ''Unlabelled''] ''Unlabelled'' = Inr [(10, 10), (1, 2)]"
  by (simp add: label_locations_def relabelled_names label_location_def mask_select_def
      eq_mask_def mean_axis0_def)

lemma relabelled_color_stage:
  "color_stage example_library example_relabelled_args [(10, 10), (1, 2)] =
     Inr ([''#ff7f0e'', ''#ff7f0e'', ''#1f77b4'', ''#999999''],
          [''Unlabelled'' \<mapsto> ''#999999'', ''c'' \<mapsto> ''#1f77b4'', ''d'' \<mapsto> ''#ff7f0e''])"
  by (simp add: color_stage_def example_relabelled_args_def example_plot_args_def
      example_library_def generate_palette_def
      example_palette_def auto_color_list_def auto_label_color_map_def relabelled_names
      relabelled_unique label_to_index_map_def dict_of_def palette_color_def palette_entry_def)

lemma relabelled_plot_arguments:
  "render_plot_arguments example_library example_relabelled_args = Inr example_relabelled_call"
proof -
  let ?a = "example_relabelled_args"
  have sel [simp]:
    "data_map_coords ?a = [(0, 0), (2, 4), (10, 10), (5, 5)]"
    "labels ?a = [''d'', ''d'', ''c'', ''Unlabelled'']"
    "noise_label ?a = ''Unlabelled''"
    "use_medoids ?a = False"
    by (simp_all add: example_relabelled_args_def example_plot_args_def)
  have wrap: "wrap_labels example_library 16 [''c'', ''d''] = Inr [''c'', ''d'']"
    by (simp add: wrap_labels_def example_library_def example_fill_def)
  have cols: "label_colors [''Unlabelled'' \<mapsto> ''#999999'', ''c'' \<mapsto> ''#1f77b4'', ''d'' \<mapsto> ''#ff7f0e'']
      [''c'', ''d''] = Inr [''#1f77b4'', ''#ff7f0e'']"
    by (simp add: label_colors_def lookup_def)
  have tcol: "label_text_colors example_library True False [''#1f77b4'', ''#ff7f0e'']
      = Inr (Some [''#222222'', ''#222222''])"
    by (simp add: label_text_colors_def example_library_def)
  have heur: "size_alpha_heuristics 4 False (Num 12, Num 12) (Num 100) =
      Inr (PyFloat (Num (magic_number 4 * 6)), PyFloat (Num (np_clip (magic_number 4) 0.05 1)))"
    by (rule example_heuristics)
  have four: "Suc (Suc (Suc (Suc 0))) = 4"
    by simp
  show ?thesis
    unfolding render_plot_arguments_def Let_def sel relabelled_names relabelled_locations
      relabelled_color_stage and_then_Inr
    by (simp add: example_relabelled_args_def example_plot_args_def wrap cols tcol heur
        wrap_highlight_labels_def label_size_adjustments_def relabelled_names marker_colors_def
        pop_or_def example_relabelled_call_def example_plot_call_def four)
qed

section \<open>The small interactive instance, evaluated\<close>

lemma int_trunc_of_int [simp]: "int_trunc (of_int i) = i"
  by (simp add: int_trunc_def)

lemma int_trunc_numeral [simp]: "int_trunc (numeral n) = numeral n"
  by (simp add: int_trunc_def)

lemma example_int_rgb:
  "int_rgb example_library ''#999999'' = Inr (153, 153, 153)"
  "int_rgb example_library ''#1f77b4'' = Inr (31, 119, 180)"
  "int_rgb example_library ''#ff7f0e'' = Inr (255, 127, 14)"
  "int_rgb example_library ''#222222'' = Inr (34, 34, 34)"
  by (simp_all add: int_rgb_def example_library_def example_to_rgb_def)

lemma layer1_unique: "np_unique [''b'', ''b'', ''Unlabelled'', ''Unlabelled''] = [''Unlabelled'', ''b'']"
  by (simp add: np_unique_def)

lemma layer2_unique: "np_unique [''c'', ''c'', ''c'', ''Unlabelled''] = [''Unlabelled'', ''c'']"
  by (simp add: np_unique_def)

lemma example_label_dataframe:
  "label_dataframe example_library example_interactive_args =
     Inr [\<lparr> row_x = 0, row_y = 0, row_label = ''b'' \<rparr>,
          \<lparr> row_x = 0, row_y = 0, row_label = ''c'' \<rparr>]"
  by (simp add: label_dataframe_def example_interactive_args_def example_library_def
      unique_non_noise_labels_def layer1_unique layer2_unique)

lemma example_interactive_colors:
  "interactive_colors example_library example_interactive_args
     [\<lparr> row_x = 0, row_y = 0, row_label = ''b'' \<rparr>,
      \<lparr> row_x = 0, row_y = 0, row_label = ''c'' \<rparr>] =
   Inr ([''b'' \<mapsto> (31, 119, 180), ''c'' \<mapsto> (255, 127, 14)], [(34, 34, 34), (34, 34, 34)])"
proof -
  have palette: "generate_palette example_library None [(0, 0), (2, 4), (10, 10), (5, 5)]
      [(0, 0), (0, 0)] 0 1 = Inr [''#1f77b4'', ''#ff7f0e'']"
    by (simp add: generate_palette_def example_library_def example_palette_def)
  have variant: "text_variant example_library False [''#1f77b4'', ''#ff7f0e'']
      = Inr [''#222222'', ''#222222'']"
    by (simp add: text_variant_def example_library_def)
  show ?thesis
    by (simp add: interactive_colors_def example_interactive_args_def palette variant
        example_int_rgb dict_of_def)
qed

lemma example_paint_layer2:
  "paint_layer [''b'' \<mapsto> (31, 119, 180), ''c'' \<mapsto> (255, 127, 14)] ''Unlabelled''
     [(153, 153, 153), (153, 153, 153), (153, 153, 153), (153, 153, 153)]
     [''c'', ''c'', ''c'', ''Unlabelled''] =
   Inr [(255, 127, 14), (255, 127, 14), (255, 127, 14), (153, 153, 153)]"
  by (simp add: paint_layer_def label_map_def label_unmap_def layer2_unique dict_of_def
      lookup_def masked_assign_def eq_mask_def uint8_rgb_def)

lemma example_paint_layer1:
  "paint_layer [''b'' \<mapsto> (31, 119, 180), ''c'' \<mapsto> (255, 127, 14)] ''Unlabelled''
     [(255, 127, 14), (255, 127, 14), (255, 127, 14), (153, 153, 153)]
     [''b'', ''b'', ''Unlabelled'', ''Unlabelled''] =
   Inr [(31, 119, 180), (31, 119, 180), (255, 127, 14), (153, 153, 153)]"
  by (simp add: paint_layer_def label_map_def label_unmap_def layer1_unique dict_of_def
      lookup_def masked_assign_def eq_mask_def uint8_rgb_def)

lemma example_color_vector:
  "color_vector example_library example_interactive_args
     [''b'' \<mapsto> (31, 119, 180), ''c'' \<mapsto> (255, 127, 14)] =
   Inr [(31, 119, 180), (31, 119, 180), (255, 127, 14), (153, 153, 153)]"
proof -
  have sel:
    "marker_color_array example_interactive_args = None"
    "noise_color example_interactive_args = ''#999999''"
    "noise_label example_interactive_args = ''Unlabelled''"
    "rev (label_layers example_interactive_args) =
       [[''c'', ''c'', ''c'', ''Unlabelled''], [''b'', ''b'', ''Unlabelled'', ''Unlabelled'']]"
    "replicate (length (data_map_coords example_interactive_args)) (uint8_rgb (153, 153, 153))
      = [(153, 153, 153), (153, 153, 153), (153, 153, 153), (153, 153, 153)]"
    by (simp_all add: example_interactive_args_def uint8_rgb_def)
  show ?thesis
    unfolding color_vector_def sel
    by (simp add: example_int_rgb sel example_paint_layer2 example_paint_layer1)
qed

lemma example_html_arguments:
  "render_html_arguments example_library example_interactive_args = Inr example_html_call"
proof -
  have points: "point_dataframe example_library example_interactive_args
      [''b'' \<mapsto> (31, 119, 180), ''c'' \<mapsto> (255, 127, 14)] = Inr (rh_point_dataframe example_html_call)"
    unfolding point_dataframe_def Let_def example_color_vector
    by (simp add: example_interactive_args_def optional_column_def color_columns_def
        example_html_call_def)
  show ?thesis
    unfolding render_html_arguments_def example_label_dataframe and_then_Inr
      example_interactive_colors prod.case points
    by (simp add: example_interactive_args_def color_label_dataframe_def
        wrap_label_dataframe_def example_library_def example_fill_def example_html_call_def)
qed

section \<open>Label anchors\<close>

lemma label_location_Inr:
  "label_location lib medoids coords vs l = Inr p \<longleftrightarrow>
     length vs = length coords \<and>
     (if medoids then medoid lib [q. (q, v) \<leftarrow> zip coords vs, v = l] = Inr p
      else p = mean_axis0 [q. (q, v) \<leftarrow> zip coords vs, v = l])"
  by (auto simp: label_location_def and_then_eq_Inr mask_select_eq_mask)

text \<open>
  Claim C1. When \<^verbatim>\<open>create_plot\<close> reaches the renderer and some label is not the noise
  label, the labels and the coordinates have the same length and the anchors passed as
  \<^verbatim>\<open>label_locations\<close> correspond one to one to the unique non-noise labels in
  their sorted order: the anchor of a label is the mean (or, with \<^verbatim>\<open>use_medoids\<close>,
  the medoid) of the rows of \<^verbatim>\<open>data_map_coords\<close> whose label is that label. The
  noise label is none of these labels, so a noise point is in none of the selections.
\<close>

theorem label_anchors_per_non_noise_label:
  assumes "render_plot_arguments lib a = Inr call"
    and "unique_non_noise_labels (labels a) (noise_label a) \<noteq> []"
  shows "length (labels a) = length (data_map_coords a) \<and>
    sorted (unique_non_noise_labels (labels a) (noise_label a)) \<and>
    distinct (unique_non_noise_labels (labels a) (noise_label a)) \<and>
    set (unique_non_noise_labels (labels a) (noise_label a)) = set (labels a) - {noise_label a} \<and>
    list_all2
      (\<lambda>l p. [q. (q, v) \<leftarrow> zip (data_map_coords a) (labels a), v = l] \<noteq> [] \<and>
         (if use_medoids a
          then medoid lib [q. (q, v) \<leftarrow> zip (data_map_coords a) (labels a), v = l] = Inr p
          else p = mean_axis0 [q. (q, v) \<leftarrow> zip (data_map_coords a) (labels a), v = l]))
      (unique_non_noise_labels (labels a) (noise_label a))
      (rp_label_locations call)"
proof -
  let ?names = "unique_non_noise_labels (labels a) (noise_label a)"
  from assms(1) obtain locations where
    locs: "label_locations lib (use_medoids a) (data_map_coords a) (labels a) (noise_label a)
       = Inr locations"
    and call: "rp_label_locations call = locations"
    by (elim render_plot_arguments_cases) simp
  from locs have all2: "list_all2
      (\<lambda>l p. label_location lib (use_medoids a) (data_map_coords a) (labels a) l = Inr p)
      ?names locations"
    by (simp add: label_locations_def comprehension_Inr_iff)
  from assms(2) obtain l ls where names: "?names = l # ls"
    by (cases ?names) auto
  with all2 obtain p where "label_location lib (use_medoids a) (data_map_coords a) (labels a) l = Inr p"
    by (auto simp: list_all2_Cons1)
  then have len: "length (labels a) = length (data_map_coords a)"
    by (simp add: label_location_Inr)
  have "list_all2
      (\<lambda>l p. [q. (q, v) \<leftarrow> zip (data_map_coords a) (labels a), v = l] \<noteq> [] \<and>
         (if use_medoids a
          then medoid lib [q. (q, v) \<leftarrow> zip (data_map_coords a) (labels a), v = l] = Inr p
          else p = mean_axis0 [q. (q, v) \<leftarrow> zip (data_map_coords a) (labels a), v = l]))
      ?names locations"
  proof (rule list.rel_mono_strong [OF all2])
    fix l p
    assume l: "l \<in> set ?names"
      and "label_location lib (use_medoids a) (data_map_coords a) (labels a) l = Inr p"
    then have anchor: "if use_medoids a
          then medoid lib [q. (q, v) \<leftarrow> zip (data_map_coords a) (labels a), v = l] = Inr p
          else p = mean_axis0 [q. (q, v) \<leftarrow> zip (data_map_coords a) (labels a), v = l]"
      by (simp add: label_location_Inr)
    from l have "l \<in> set (labels a)"
      by (simp add: set_unique_non_noise_labels)
    with len have "[q. (q, v) \<leftarrow> zip (data_map_coords a) (labels a), v = l] \<noteq> []"
      by (rule selected_rows_nonempty)
    with anchor show "[q. (q, v) \<leftarrow> zip (data_map_coords a) (labels a), v = l] \<noteq> [] \<and>
         (if use_medoids a
          then medoid lib [q. (q, v) \<leftarrow> zip (data_map_coords a) (labels a), v = l] = Inr p
          else p = mean_axis0 [q. (q, v) \<leftarrow> zip (data_map_coords a) (labels a), v = l])"
      by simp
  qed
  with len call show ?thesis
    by (simp add: set_unique_non_noise_labels)
qed

theorem label_anchors_per_non_noise_label_witness:
  "render_plot_arguments example_library example_plot_args = Inr example_plot_call \<and>
   unique_non_noise_labels (labels example_plot_args) (noise_label example_plot_args) = [''a'', ''b''] \<and>
   use_medoids example_plot_args = False \<and>
   rp_label_locations example_plot_call =
     [mean_axis0 [(10, 10)], mean_axis0 [(0, 0), (2, 4)]]"
proof -
  have names: "unique_non_noise_labels (labels example_plot_args) (noise_label example_plot_args)
      = [''a'', ''b'']"
    by (simp add: example_plot_args_def example_names)
  then have nonempty: "unique_non_noise_labels (labels example_plot_args)
      (noise_label example_plot_args) \<noteq> []"
    by simp
  from label_anchors_per_non_noise_label [OF example_plot_arguments nonempty]
  show ?thesis
    using example_plot_arguments names
    by (simp add: example_plot_args_def example_plot_call_def mean_axis0_def)
qed

section \<open>Point size and alpha given by the caller\<close>

text \<open>
  Claim C10. A \<^verbatim>\<open>point_size\<close> (an \<^verbatim>\<open>alpha\<close>) in \<^verbatim>\<open>render_plot_kwds\<close> is the
  value passed to \<^verbatim>\<open>render_plot\<close>, whatever the heuristics computed, and the keywords
  forwarded to \<^verbatim>\<open>render_plot\<close> are the caller's without these two keys.
\<close>

theorem explicit_point_size_and_alpha_take_precedence:
  assumes "render_plot_arguments lib a = Inr call"
  shows "(\<forall>v. render_plot_kwds a ''point_size'' = Some v \<longrightarrow> rp_point_size call = v) \<and>
         (\<forall>v. render_plot_kwds a ''alpha'' = Some v \<longrightarrow> rp_alpha call = v) \<and>
         rp_kwds call = (render_plot_kwds a)(''point_size'' := None, ''alpha'' := None)"
proof -
  from assms obtain heuristic_size heuristic_alpha where
    size: "rp_point_size call = fst (pop_or ''point_size'' heuristic_size (render_plot_kwds a))"
    and alpha: "rp_alpha call =
      fst (pop_or ''alpha'' heuristic_alpha
             (snd (pop_or ''point_size'' heuristic_size (render_plot_kwds a))))"
    and kwds: "rp_kwds call =
      snd (pop_or ''alpha'' heuristic_alpha
             (snd (pop_or ''point_size'' heuristic_size (render_plot_kwds a))))"
    by (elim render_plot_arguments_cases) simp
  from size have "\<forall>v. render_plot_kwds a ''point_size'' = Some v \<longrightarrow> rp_point_size call = v"
    by (simp add: pop_or_fst)
  moreover from alpha have "\<forall>v. render_plot_kwds a ''alpha'' = Some v \<longrightarrow> rp_alpha call = v"
    by (simp add: pop_or_fst pop_or_snd)
  moreover from kwds
  have "rp_kwds call = (render_plot_kwds a)(''point_size'' := None, ''alpha'' := None)"
    by (simp add: pop_or_snd)
  ultimately show ?thesis by simp
qed

theorem explicit_point_size_and_alpha_witness:
  "(\<exists>call. render_plot_arguments example_library example_sized_args = Inr call \<and>
     rp_point_size call = PyInt 3 \<and> rp_alpha call = PyFloat (Num 0.5) \<and>
     rp_kwds call = [''marker_type'' \<mapsto> PyStr ''o'']) \<and>
   render_plot_kwds example_sized_args ''point_size'' = Some (PyInt 3) \<and>
   render_plot_kwds example_sized_args ''alpha'' = Some (PyFloat (Num 0.5))"
proof -
  obtain call where call: "render_plot_arguments example_library example_sized_args = Inr call"
    using example_plot_arguments_kwds by (simp add: example_sized_args_def)
  have kwds: "render_plot_kwds example_sized_args ''point_size'' = Some (PyInt 3)"
    "render_plot_kwds example_sized_args ''alpha'' = Some (PyFloat (Num 0.5))"
    by (simp_all add: example_sized_args_def)
  have rest: "(render_plot_kwds example_sized_args)(''point_size'' := None, ''alpha'' := None)
      = [''marker_type'' \<mapsto> PyStr ''o'']"
    by (auto simp: example_sized_args_def)
  from explicit_point_size_and_alpha_take_precedence [OF call] kwds rest call
  show ?thesis by simp
qed

section \<open>The heuristics for point size and alpha\<close>

lemma size_alpha_heuristics_Inr:
  assumes "size_alpha_heuristics n force fig_size dots = Inr (s, al)"
  shows "if n < 100000 \<or> force
         then s = PyFloat (np_times (Num (magic_number n))
                    (np_divide (np_sqrt (np_times (fst fig_size) (snd fig_size))) (Num 2))) \<and>
              al = PyFloat (Num (np_clip (magic_number n) 0.05 1))
         else (\<exists>v. np_times (np_sqrt (np_times (fst fig_size) (snd fig_size))) dots = Num v \<and>
                 s = PyInt (int_trunc v div 2048)) \<and>
              al = PyFloat (Num 1)"
  using assms
  by (auto simp: size_alpha_heuristics_def Let_def and_then_eq_Inr py_int_Inr split: if_splits)

text \<open>
  Claim C4. When \<^verbatim>\<open>render_plot_kwds\<close> has neither \<^verbatim>\<open>point_size\<close> nor
  \<^verbatim>\<open>alpha\<close>, the two values passed to \<^verbatim>\<open>render_plot\<close> are those of the
  heuristics, which read the number of points, \<^verbatim>\<open>force_matplotlib\<close>, \<^verbatim>\<open>figsize\<close>
  and \<^verbatim>\<open>dpi\<close> only. In the matplotlib branch the factor \<^verbatim>\<open>magic_number\<close> lies
  between 0.05 and 64, the point size is that factor times half the square root of the
  figure area, and alpha is the factor clipped to the range from 0.05 to 1. In the
  datashader branch alpha is 1.0 and the point size is an integer computed from
  \<^verbatim>\<open>figsize\<close> and \<^verbatim>\<open>dpi\<close>: the square root of the figure area times
  \<^verbatim>\<open>dpi\<close> is then a finite float \<open>v\<close> (the run ends in an exception otherwise)
  and the point size is \<^verbatim>\<open>int(v) // 2048\<close>.
\<close>

theorem size_and_alpha_heuristics_clamped:
  assumes "render_plot_kwds a ''point_size'' = None"
    and "render_plot_kwds a ''alpha'' = None"
    and "render_plot_arguments lib a = Inr call"
  shows "size_alpha_heuristics (length (data_map_coords a)) (force_matplotlib a) (figsize a) (dpi a)
           = Inr (rp_point_size call, rp_alpha call) \<and>
    (if length (data_map_coords a) < 100000 \<or> force_matplotlib a
     then 0.05 \<le> magic_number (length (data_map_coords a)) \<and>
          magic_number (length (data_map_coords a)) \<le> 64 \<and>
          rp_point_size call =
            PyFloat (np_times (Num (magic_number (length (data_map_coords a))))
                       (np_divide (np_sqrt (np_times (fst (figsize a)) (snd (figsize a))))
                          (Num 2))) \<and>
          (\<exists>al. rp_alpha call = PyFloat (Num al) \<and> 0.05 \<le> al \<and> al \<le> 1 \<and>
                al = np_clip (magic_number (length (data_map_coords a))) 0.05 1)
     else rp_alpha call = PyFloat (Num 1) \<and>
          (\<exists>v. np_times (np_sqrt (np_times (fst (figsize a)) (snd (figsize a)))) (dpi a) = Num v \<and>
                rp_point_size call = PyInt (int_trunc v div 2048)))"
proof -
  from assms(3) obtain heuristic_size heuristic_alpha where
    heur: "size_alpha_heuristics (length (data_map_coords a)) (force_matplotlib a) (figsize a)
       (dpi a) = Inr (heuristic_size, heuristic_alpha)"
    and size: "rp_point_size call = fst (pop_or ''point_size'' heuristic_size (render_plot_kwds a))"
    and alpha: "rp_alpha call =
      fst (pop_or ''alpha'' heuristic_alpha
             (snd (pop_or ''point_size'' heuristic_size (render_plot_kwds a))))"
    by (elim render_plot_arguments_cases) simp
  from size assms(1) have s: "rp_point_size call = heuristic_size"
    by (simp add: pop_or_fst)
  from alpha assms(2) have al: "rp_alpha call = heuristic_alpha"
    by (simp add: pop_or_fst pop_or_snd)
  have "(0.05 :: real) \<le> 1" by simp
  note clip = np_clip_bounds [OF this, of "magic_number (length (data_map_coords a))"]
  from size_alpha_heuristics_Inr [OF heur] magic_number_bounds [of "length (data_map_coords a)"]
    clip heur
  show ?thesis
    unfolding s al by (simp split: if_splits)
qed

theorem size_and_alpha_heuristics_witness:
  "render_plot_kwds example_plot_args ''point_size'' = None \<and>
   render_plot_kwds example_plot_args ''alpha'' = None \<and>
   render_plot_arguments example_library example_plot_args = Inr example_plot_call \<and>
   length (data_map_coords example_plot_args) = 4 \<and>
   rp_point_size example_plot_call = PyFloat (Num (magic_number 4 * 6)) \<and>
   rp_alpha example_plot_call = PyFloat (Num (np_clip (magic_number 4) 0.05 1)) \<and>
   0.05 \<le> np_clip (magic_number 4) 0.05 1 \<and> np_clip (magic_number 4) 0.05 1 \<le> 1 \<and>
   0.05 \<le> magic_number 4 \<and> magic_number 4 \<le> 64"
proof -
  have kwds: "render_plot_kwds example_plot_args ''point_size'' = None"
    "render_plot_kwds example_plot_args ''alpha'' = None"
    by (simp_all add: example_plot_args_def)
  have len: "length (data_map_coords example_plot_args) = 4"
    by (simp add: example_plot_args_def)
  from size_and_alpha_heuristics_clamped [OF kwds example_plot_arguments]
  show ?thesis
    using kwds example_plot_arguments
    by (simp add: len) (simp add: example_plot_call_def)
qed

section \<open>The colours of the label texts\<close>

lemma label_colors_Inr:
  "label_colors color_map names = Inr colors \<longleftrightarrow>
     list_all2 (\<lambda>l c. color_map l = Some c) names colors"
proof -
  have "(lookup color_map l = Inr c) = (color_map l = Some c)" for l c
    by (simp add: lookup_def split: option.splits)
  then show ?thesis
    by (simp add: label_colors_def comprehension_Inr_iff)
qed

lemma label_text_colors_Inr:
  "label_text_colors lib colored dark colors = Inr text_colors \<longleftrightarrow>
     map_option Inr text_colors =
       (if colored then Some (if dark then pastel_palette lib colors else deep_palette lib colors)
        else None)"
  by (cases text_colors) (auto simp: label_text_colors_def and_then_eq_Inr)

text \<open>
  Claim C6. The base colours of the clusters are the colours of the unique non-noise
  labels in \<^verbatim>\<open>label_color_map\<close> (they are also passed as \<^verbatim>\<open>highlight_colors\<close>).
  With \<^verbatim>\<open>color_label_text\<close> the text colours passed to \<^verbatim>\<open>render_plot\<close> are
  \<^verbatim>\<open>deep_palette\<close> of the base colours, or \<^verbatim>\<open>pastel_palette\<close> of them in dark
  mode: a function of that list alone. Without \<^verbatim>\<open>color_label_text\<close> the argument is
  \<^verbatim>\<open>None\<close>.
\<close>

theorem label_text_colors_from_base_colors:
  assumes "render_plot_arguments lib a = Inr call"
  shows "(\<exists>color_list color_map.
            color_stage lib a (rp_label_locations call) = Inr (color_list, color_map) \<and>
            list_all2 (\<lambda>l c. color_map l = Some c)
              (unique_non_noise_labels (labels a) (noise_label a)) (rp_highlight_colors call)) \<and>
         map_option Inr (rp_label_text_colors call) =
           (if color_label_text a
            then Some (if darkmode a then pastel_palette lib (rp_highlight_colors call)
                       else deep_palette lib (rp_highlight_colors call))
            else None)"
proof -
  from assms obtain color_list color_map colors text_colors where
    stage: "color_stage lib a (rp_label_locations call) = Inr (color_list, color_map)"
    and colors: "label_colors color_map (unique_non_noise_labels (labels a) (noise_label a))
      = Inr colors"
    and text_colors: "label_text_colors lib (color_label_text a) (darkmode a) colors
      = Inr text_colors"
    and highlight: "rp_highlight_colors call = colors"
    and passed: "rp_label_text_colors call = (if \<not> color_label_text a then None else text_colors)"
    by (elim render_plot_arguments_cases) simp
  from text_colors have "map_option Inr text_colors =
      (if color_label_text a
       then Some (if darkmode a then pastel_palette lib colors else deep_palette lib colors)
       else None)"
    by (simp only: label_text_colors_Inr)
  with passed highlight have "map_option Inr (rp_label_text_colors call) =
      (if color_label_text a
       then Some (if darkmode a then pastel_palette lib (rp_highlight_colors call)
                  else deep_palette lib (rp_highlight_colors call))
       else None)"
    by (simp split: if_splits)
  moreover from colors highlight
  have "list_all2 (\<lambda>l c. color_map l = Some c)
      (unique_non_noise_labels (labels a) (noise_label a)) (rp_highlight_colors call)"
    by (simp add: label_colors_Inr)
  ultimately show ?thesis using stage by blast
qed

theorem label_text_colors_witness:
  "render_plot_arguments example_library example_plot_args = Inr example_plot_call \<and>
   color_label_text example_plot_args = True \<and> darkmode example_plot_args = False \<and>
   rp_highlight_colors example_plot_call = [''#1f77b4'', ''#ff7f0e''] \<and>
   deep_palette example_library [''#1f77b4'', ''#ff7f0e''] = Inr [''#222222'', ''#222222''] \<and>
   rp_label_text_colors example_plot_call = Some [''#222222'', ''#222222'']"
  using label_text_colors_from_base_colors [OF example_plot_arguments] example_plot_arguments
  by (simp add: example_plot_args_def example_plot_call_def example_library_def)

section \<open>Dictionaries and the generated colour map\<close>

lemma fold_update_map_of:
  "fold (\<lambda>(k, v) m. m(k \<mapsto> v)) kvs m = m ++ map_of (rev kvs)"
proof (induction kvs arbitrary: m)
  case Nil
  then show ?case by simp
next
  case (Cons kv kvs)
  obtain k v where kv: "kv = (k, v)" by (cases kv)
  have "m(k \<mapsto> v) ++ map_of (rev kvs) = m ++ map_of (rev kvs @ [(k, v)])"
    by (rule ext) (simp add: map_add_def map_of_append split: option.splits)
  moreover have "fold (\<lambda>(k, v) m. m(k \<mapsto> v)) (kv # kvs) m =
      fold (\<lambda>(k, v) m. m(k \<mapsto> v)) kvs (m(k \<mapsto> v))"
    by (simp only: kv fold.simps comp_apply prod.case)
  moreover have "rev (kv # kvs) = rev kvs @ [(k, v)]"
    by (simp add: kv)
  ultimately show ?case
    using Cons.IH [of "m(k \<mapsto> v)"] by (simp only:)
qed

lemma dict_of_map_of_rev: "dict_of kvs = map_of (rev kvs)"
  by (simp add: dict_of_def fold_update_map_of)

lemma dict_of_distinct: "distinct (map fst kvs) \<Longrightarrow> dict_of kvs = map_of kvs"
proof -
  assume d: "distinct (map fst kvs)"
  show ?thesis
  proof
    fix k
    show "dict_of kvs k = map_of kvs k"
    proof (cases "map_of kvs k")
      case None
      then have "k \<notin> fst ` set kvs" by (simp add: map_of_eq_None_iff)
      then have "map_of (rev kvs) k = None" by (simp add: map_of_eq_None_iff)
      with None show ?thesis by (simp add: dict_of_map_of_rev)
    next
      case (Some v)
      then have "(k, v) \<in> set (rev kvs)" by (auto dest: map_of_SomeD)
      moreover from d have "distinct (map fst (rev kvs))" by (simp add: rev_map [symmetric])
      ultimately have "map_of (rev kvs) k = Some v" by (rule map_of_is_SomeI [rotated])
      with Some show ?thesis by (simp add: dict_of_map_of_rev)
    qed
  qed
qed

lemma dom_dict_of: "dom (dict_of kvs) = fst ` set kvs"
  by (simp add: dict_of_map_of_rev dom_map_of_conv_image_fst)

lemma dict_of_SomeD: "dict_of kvs k = Some v \<Longrightarrow> (k, v) \<in> set kvs"
  by (auto simp: dict_of_map_of_rev dest: map_of_SomeD)

lemma label_to_index_map_nth:
  assumes "distinct names" and "k < length names"
  shows "label_to_index_map names (names ! k) = Some k"
proof -
  have "distinct (map fst (zip names [0..<length names]))"
    using assms(1) by simp
  then have "label_to_index_map names = map_of (zip names [0..<length names])"
    unfolding label_to_index_map_def by (rule dict_of_distinct)
  moreover have "map_of (zip names [0..<length names]) (names ! k) = Some ([0..<length names] ! k)"
    using assms by (intro map_of_zip_nth) simp_all
  ultimately show ?thesis using assms(2) by simp
qed

lemma label_to_index_map_None:
  "label_to_index_map names l = None \<longleftrightarrow> l \<notin> set names"
proof -
  have "map fst (zip names [0..<length names]) = names"
    by simp
  then have "fst ` set (zip names [0..<length names]) = set names"
    by (metis set_map)
  then have "dom (label_to_index_map names) = set names"
    by (simp add: label_to_index_map_def dom_dict_of)
  then show ?thesis by (metis domIff)
qed

lemma palette_color_name:
  assumes "distinct names" and "k < length names"
  shows "palette_color palette (label_to_index_map names) noise_col (names ! k)
     = palette_entry palette k"
  using label_to_index_map_nth [OF assms] by (simp add: palette_color_def)

lemma palette_color_other:
  assumes "l \<notin> set names"
  shows "palette_color palette (label_to_index_map names) noise_col l = Inr noise_col"
  using assms label_to_index_map_None [of names l] by (simp add: palette_color_def)

lemma palette_entry_Inr: "palette_entry palette i = Inr c \<longleftrightarrow> i < length palette \<and> c = palette ! i"
  by (auto simp: palette_entry_def)

lemma comprehension_tagged:
  "comprehension (\<lambda>l. and_then (f l) (\<lambda>c. Inr (l, c))) ls = Inr kvs \<Longrightarrow>
     map fst kvs = ls \<and> (\<forall>kv \<in> set kvs. f (fst kv) = Inr (snd kv))"
proof (induction ls arbitrary: kvs)
  case Nil
  then show ?case by simp
next
  case (Cons l ls)
  from Cons.prems obtain c rest where
    c: "f l = Inr c"
    and rest: "comprehension (\<lambda>l. and_then (f l) (\<lambda>c. Inr (l, c))) ls = Inr rest"
    and kvs: "kvs = (l, c) # rest"
    by (auto simp: and_then_eq_Inr)
  from Cons.IH [OF rest] c kvs show ?case by simp
qed

text \<open>The generated map, in terms of the colour of a single label.\<close>

lemma auto_label_color_map_Inr:
  assumes "auto_label_color_map palette vs noise noise_col = Inr color_map"
  shows "color_map l = Some c \<longleftrightarrow>
    l \<in> set vs \<and>
    palette_color palette (label_to_index_map (unique_non_noise_labels vs noise)) noise_col l
      = Inr c"
proof -
  let ?f = "palette_color palette (label_to_index_map (unique_non_noise_labels vs noise)) noise_col"
  from assms obtain kvs where
    kvs: "comprehension (\<lambda>l. and_then (?f l) (\<lambda>c. Inr (l, c))) (np_unique vs) = Inr kvs"
    and cm: "color_map = dict_of kvs"
    by (auto simp: auto_label_color_map_def and_then_eq_Inr)
  from comprehension_tagged [OF kvs]
  have keys: "map fst kvs = np_unique vs" and vals: "\<forall>kv \<in> set kvs. ?f (fst kv) = Inr (snd kv)"
    by simp_all
  from keys have d: "distinct (map fst kvs)" by simp
  with cm have cm': "color_map = map_of kvs" by (simp add: dict_of_distinct)
  show ?thesis
  proof
    assume "color_map l = Some c"
    with cm' have "(l, c) \<in> set kvs" by (auto dest: map_of_SomeD)
    then have "l \<in> set (map fst kvs)" by force
    then have "l \<in> set vs" by (simp add: keys)
    moreover from vals \<open>(l, c) \<in> set kvs\<close> have "?f l = Inr c" by force
    ultimately show "l \<in> set vs \<and> ?f l = Inr c" by simp
  next
    assume r: "l \<in> set vs \<and> ?f l = Inr c"
    then have "l \<in> set (map fst kvs)" by (simp add: keys)
    then obtain c' where in_kvs: "(l, c') \<in> set kvs" by auto
    with vals have "?f l = Inr c'" by force
    with r have "c' = c" by simp
    with in_kvs d show "color_map l = Some c" by (simp add: cm')
  qed
qed

lemma comprehension_total:
  "(\<forall>v \<in> set vs. \<exists>w. f v = Inr w) \<Longrightarrow> \<exists>ws. comprehension f vs = Inr ws"
proof (induction vs)
  case Nil
  then show ?case by simp
next
  case (Cons v vs)
  then obtain w ws where "f v = Inr w" "comprehension f vs = Inr ws"
    by auto
  then show ?case by simp
qed

lemma auto_color_list_Inr:
  "auto_color_list palette vs noise noise_col = Inr color_list \<longleftrightarrow>
     list_all2
       (\<lambda>l c. palette_color palette (label_to_index_map (unique_non_noise_labels vs noise))
                 noise_col l = Inr c)
       vs color_list"
  by (simp add: auto_color_list_def comprehension_Inr_iff)

lemma color_stage_auto:
  assumes "label_color_map a = None"
  shows "color_stage lib a locations = Inr (color_list, color_map) \<longleftrightarrow>
    (\<exists>palette.
       generate_palette lib (cmap a) (data_map_coords a) locations (palette_hue_shift a)
         (palette_hue_radius_dependence a) = Inr palette \<and>
       auto_color_list palette (labels a) (noise_label a) (noise_color a) = Inr color_list \<and>
       auto_label_color_map palette (labels a) (noise_label a) (noise_color a) = Inr color_map)"
  using assms by (auto simp: color_stage_def and_then_eq_Inr)

lemma palette_color_total:
  assumes "length names \<le> length palette" and "distinct names"
  shows "\<exists>c. palette_color palette (label_to_index_map names) noise_col l = Inr c"
proof (cases "l \<in> set names")
  case True
  then obtain k where k: "k < length names" "names ! k = l"
    by (auto simp: in_set_conv_nth)
  with assms have "palette_color palette (label_to_index_map names) noise_col l
      = Inr (palette ! k)"
    using palette_color_name [of names k palette noise_col] by (simp add: palette_entry_def)
  then show ?thesis by blast
next
  case False
  then show ?thesis by (simp add: palette_color_other)
qed

lemma auto_colors_properties:
  assumes cl: "auto_color_list palette vs noise noise_col = Inr color_list"
    and cm: "auto_label_color_map palette vs noise noise_col = Inr color_map"
  shows "dom color_map = set vs"
    and "\<forall>k < length (unique_non_noise_labels vs noise).
           k < length palette \<and>
           color_map (unique_non_noise_labels vs noise ! k) = Some (palette ! k)"
    and "noise \<in> set vs \<longrightarrow> color_map noise = Some noise_col"
    and "length color_list = length vs"
    and "\<forall>i < length vs. color_map (vs ! i) = Some (color_list ! i) \<and>
           (vs ! i = noise \<longrightarrow> color_list ! i = noise_col)"
proof -
  let ?names = "unique_non_noise_labels vs noise"
  let ?f = "palette_color palette (label_to_index_map ?names) noise_col"
  note map_iff = auto_label_color_map_Inr [OF cm]
  from cl have all2: "list_all2 (\<lambda>l c. ?f l = Inr c) vs color_list"
    by (simp add: auto_color_list_Inr)
  then show len: "length color_list = length vs"
    by (simp add: list_all2_lengthD)
  have point: "?f (vs ! i) = Inr (color_list ! i)" if "i < length vs" for i
    using list_all2_nthD [OF all2 that] .
  have defined: "\<exists>c. ?f l = Inr c" if "l \<in> set vs" for l
    using that point by (auto simp: in_set_conv_nth)
  show "dom color_map = set vs"
  proof
    show "dom color_map \<subseteq> set vs"
      using map_iff by auto
    show "set vs \<subseteq> dom color_map"
    proof
      fix l assume "l \<in> set vs"
      with defined map_iff show "l \<in> dom color_map" by blast
    qed
  qed
  show "\<forall>k < length ?names. k < length palette \<and> color_map (?names ! k) = Some (palette ! k)"
  proof (intro allI impI)
    fix k assume k: "k < length ?names"
    then have "?names ! k \<in> set ?names" by simp
    then have in_vs: "?names ! k \<in> set vs"
      by (simp add: set_unique_non_noise_labels)
    from defined [OF this] obtain c where c: "?f (?names ! k) = Inr c" by blast
    moreover have "?f (?names ! k) = palette_entry palette k"
      using k by (intro palette_color_name) simp_all
    ultimately have "k < length palette" "c = palette ! k"
      by (simp_all add: palette_entry_Inr)
    with c in_vs map_iff show "k < length palette \<and> color_map (?names ! k) = Some (palette ! k)"
      by simp
  qed
  have noise: "?f noise = Inr noise_col"
    by (intro palette_color_other) (simp add: set_unique_non_noise_labels)
  then show "noise \<in> set vs \<longrightarrow> color_map noise = Some noise_col"
    using map_iff by simp
  show "\<forall>i < length vs. color_map (vs ! i) = Some (color_list ! i) \<and>
           (vs ! i = noise \<longrightarrow> color_list ! i = noise_col)"
  proof (intro allI impI conjI)
    fix i assume i: "i < length vs"
    with point map_iff show "color_map (vs ! i) = Some (color_list ! i)" by simp
    assume "vs ! i = noise"
    with point [OF i] noise show "color_list ! i = noise_col" by simp
  qed
qed

lemma auto_colors_succeed:
  assumes "length (unique_non_noise_labels vs noise) \<le> length palette"
  shows "\<exists>color_list color_map.
    auto_color_list palette vs noise noise_col = Inr color_list \<and>
    auto_label_color_map palette vs noise noise_col = Inr color_map"
proof -
  let ?f = "palette_color palette (label_to_index_map (unique_non_noise_labels vs noise)) noise_col"
  have total: "\<exists>c. ?f l = Inr c" for l
    using assms by (intro palette_color_total) simp_all
  then have "\<exists>cs. comprehension ?f vs = Inr cs"
    by (intro comprehension_total) simp
  moreover have "\<exists>kv. and_then (?f l) (\<lambda>c. Inr (l, c)) = Inr kv" for l
    using total [of l] by auto
  then have "\<exists>kvs. comprehension (\<lambda>l. and_then (?f l) (\<lambda>c. Inr (l, c))) (np_unique vs) = Inr kvs"
    by (intro comprehension_total) simp
  ultimately show ?thesis
    by (auto simp: auto_color_list_def auto_label_color_map_def)
qed

section \<open>The generated colour map is total over the labels\<close>

text \<open>
  Claim C2. Without a \<^verbatim>\<open>label_color_map\<close> of the caller's, a run of lines 186 to 221
  that succeeds has generated a palette, and the generated map has exactly the labels
  that occur as its keys; the \<open>k\<close>-th unique non-noise label has the \<open>k\<close>-th
  colour of the palette; the noise label, when it occurs, has \<^verbatim>\<open>noise_color\<close>; and
  \<^verbatim>\<open>color_list\<close> has one colour for each sample, the colour of its label in the map,
  which is \<^verbatim>\<open>noise_color\<close> for a noise point. The run succeeds whenever the palette
  function returns at least one colour for each unique non-noise label. Without a
  \<^verbatim>\<open>marker_color_array\<close>, this \<^verbatim>\<open>color_list\<close> is the one passed to
  \<^verbatim>\<open>render_plot\<close>.
\<close>

theorem auto_label_color_map_total:
  assumes "label_color_map a = None"
  shows
    "(\<forall>color_list color_map.
        color_stage lib a locations = Inr (color_list, color_map) \<longrightarrow>
        (\<exists>palette.
           generate_palette lib (cmap a) (data_map_coords a) locations (palette_hue_shift a)
             (palette_hue_radius_dependence a) = Inr palette \<and>
           dom color_map = set (labels a) \<and>
           (\<forall>k < length (unique_non_noise_labels (labels a) (noise_label a)).
              k < length palette \<and>
              color_map (unique_non_noise_labels (labels a) (noise_label a) ! k)
                = Some (palette ! k)) \<and>
           (noise_label a \<in> set (labels a) \<longrightarrow>
              color_map (noise_label a) = Some (noise_color a)) \<and>
           length color_list = length (labels a) \<and>
           (\<forall>i < length (labels a).
              color_map (labels a ! i) = Some (color_list ! i) \<and>
              (labels a ! i = noise_label a \<longrightarrow> color_list ! i = noise_color a)))) \<and>
     (\<forall>palette.
        generate_palette lib (cmap a) (data_map_coords a) locations (palette_hue_shift a)
          (palette_hue_radius_dependence a) = Inr palette \<and>
        length (unique_non_noise_labels (labels a) (noise_label a)) \<le> length palette \<longrightarrow>
        (\<exists>color_list color_map. color_stage lib a locations = Inr (color_list, color_map))) \<and>
     (\<forall>call.
        render_plot_arguments lib a = Inr call \<and> marker_color_array a = None \<longrightarrow>
        (\<exists>color_map.
           color_stage lib a (rp_label_locations call) = Inr (rp_color_list call, color_map)))"
proof (intro conjI allI impI)
  fix color_list color_map
  assume "color_stage lib a locations = Inr (color_list, color_map)"
  with assms obtain palette where
    palette: "generate_palette lib (cmap a) (data_map_coords a) locations (palette_hue_shift a)
         (palette_hue_radius_dependence a) = Inr palette"
    and cl: "auto_color_list palette (labels a) (noise_label a) (noise_color a) = Inr color_list"
    and cm: "auto_label_color_map palette (labels a) (noise_label a) (noise_color a)
         = Inr color_map"
    by (auto simp: color_stage_auto)
  from palette auto_colors_properties [OF cl cm]
  show "\<exists>palette.
           generate_palette lib (cmap a) (data_map_coords a) locations (palette_hue_shift a)
             (palette_hue_radius_dependence a) = Inr palette \<and>
           dom color_map = set (labels a) \<and>
           (\<forall>k < length (unique_non_noise_labels (labels a) (noise_label a)).
              k < length palette \<and>
              color_map (unique_non_noise_labels (labels a) (noise_label a) ! k)
                = Some (palette ! k)) \<and>
           (noise_label a \<in> set (labels a) \<longrightarrow>
              color_map (noise_label a) = Some (noise_color a)) \<and>
           length color_list = length (labels a) \<and>
           (\<forall>i < length (labels a).
              color_map (labels a ! i) = Some (color_list ! i) \<and>
              (labels a ! i = noise_label a \<longrightarrow> color_list ! i = noise_color a))"
    by blast
next
  fix palette
  assume p: "generate_palette lib (cmap a) (data_map_coords a) locations (palette_hue_shift a)
          (palette_hue_radius_dependence a) = Inr palette \<and>
        length (unique_non_noise_labels (labels a) (noise_label a)) \<le> length palette"
  then have "\<exists>color_list color_map.
    auto_color_list palette (labels a) (noise_label a) (noise_color a) = Inr color_list \<and>
    auto_label_color_map palette (labels a) (noise_label a) (noise_color a) = Inr color_map"
    by (intro auto_colors_succeed) simp
  with p assms show "\<exists>color_list color_map. color_stage lib a locations = Inr (color_list, color_map)"
    by (auto simp: color_stage_auto)
next
  fix call
  assume c: "render_plot_arguments lib a = Inr call \<and> marker_color_array a = None"
  then obtain color_list color_map where
    "color_stage lib a (rp_label_locations call) = Inr (color_list, color_map)"
    "rp_color_list call = marker_colors (marker_color_array a) color_list"
    by (elim conjE render_plot_arguments_cases) simp
  with c show "\<exists>color_map.
      color_stage lib a (rp_label_locations call) = Inr (rp_color_list call, color_map)"
    by (auto simp: marker_colors_def)
qed

theorem auto_label_color_map_witness:
  "label_color_map example_plot_args = None \<and>
   color_stage example_library example_plot_args [(10, 10), (1, 2)] =
     Inr ([''#ff7f0e'', ''#ff7f0e'', ''#1f77b4'', ''#999999''],
          [''Unlabelled'' \<mapsto> ''#999999'', ''a'' \<mapsto> ''#1f77b4'', ''b'' \<mapsto> ''#ff7f0e'']) \<and>
   dom [''Unlabelled'' \<mapsto> ''#999999'', ''a'' \<mapsto> ''#1f77b4'', ''b'' \<mapsto> ''#ff7f0e'']
     = set (labels example_plot_args) \<and>
   length [''#ff7f0e'', ''#ff7f0e'', ''#1f77b4'', ''#999999'']
     = length (labels example_plot_args) \<and>
   noise_label example_plot_args \<in> set (labels example_plot_args) \<and>
   [''Unlabelled'' \<mapsto> ''#999999'', ''a'' \<mapsto> ''#1f77b4'', ''b'' \<mapsto> ''#ff7f0e'']
     (noise_label example_plot_args) = Some (noise_color example_plot_args)"
proof -
  have none: "label_color_map example_plot_args = None"
    by (simp add: example_plot_args_def)
  have noise: "noise_label example_plot_args \<in> set (labels example_plot_args)"
    by (simp add: example_plot_args_def)
  from auto_label_color_map_total [OF none, of example_library "[(10, 10), (1, 2)]"]
    example_color_stage noise
  have "dom [''Unlabelled'' \<mapsto> ''#999999'', ''a'' \<mapsto> ''#1f77b4'', ''b'' \<mapsto> ''#ff7f0e'']
      = set (labels example_plot_args) \<and>
    length [''#ff7f0e'', ''#ff7f0e'', ''#1f77b4'', ''#999999'']
      = length (labels example_plot_args) \<and>
    [''Unlabelled'' \<mapsto> ''#999999'', ''a'' \<mapsto> ''#1f77b4'', ''b'' \<mapsto> ''#ff7f0e'']
      (noise_label example_plot_args) = Some (noise_color example_plot_args)"
    by blast
  with none noise example_color_stage show ?thesis by simp
qed

section \<open>The noise label and the outputs for labels\<close>



lemma label_locations_length:
  "label_locations lib medoids coords vs noise = Inr locations \<Longrightarrow>
     length locations = length (unique_non_noise_labels vs noise)"
  by (simp add: label_locations_def comprehension_length)




lemma length_normalised_sizes [simp]: "length (normalised_sizes sizes) = length sizes"
  by (cases sizes) (simp_all add: normalised_sizes_def Let_def)














section \<open>Two runs of the palette generation\<close>


lemma length_palette_from_datamap_spec [simp]:
  "length (palette_from_datamap_spec hue_color coords locations hue_shift radius_weight_power)
     = length locations"
  by (simp add: palette_from_datamap_spec_def Let_def)

lemma length_palette_from_cmap_and_datamap_spec [simp]:
  "length (palette_from_cmap_and_datamap_spec cmap_color c coords locations radius_weight_power)
     = length locations"
  by (simp add: palette_from_cmap_and_datamap_spec_def Let_def)





section \<open>What the two entry points return\<close>

text \<open>
  Claim C3, as amended. A call of \<^verbatim>\<open>create_plot\<close> returns a value exactly when
  \<^verbatim>\<open>render_plot\<close> returns one for the arguments computed, and the value is the pair
  \<^verbatim>\<open>(fig, ax)\<close> of \<^verbatim>\<open>render_plot\<close>. A call of \<^verbatim>\<open>create_interactive_plot\<close>
  with at least one label layer returns a value exactly when \<^verbatim>\<open>render_html\<close>
  returns a document for the arguments computed, and the value is the
  \<^verbatim>\<open>InteractiveFigure\<close> of that document with the width and height given. A call
  with no label layer returns \<^verbatim>\<open>None\<close>.
\<close>

theorem entry_points_return_values:
  "(create_plot lib a = Inr fig \<longleftrightarrow>
      (\<exists>call. render_plot_arguments lib a = Inr call \<and> render_plot lib call = Inr fig)) \<and>
   (label_layers b = [] \<longrightarrow> create_interactive_plot lib b = Inr None) \<and>
   (label_layers b \<noteq> [] \<longrightarrow>
      (create_interactive_plot lib b = Inr r \<longleftrightarrow>
         (\<exists>call html_str.
            render_html_arguments lib b = Inr call \<and>
            render_html lib call = Inr html_str \<and>
            r = Some (InteractiveFigure html_str (width b) (height b)))))"
proof (intro conjI impI)
  show "create_plot lib a = Inr fig \<longleftrightarrow>
      (\<exists>call. render_plot_arguments lib a = Inr call \<and> render_plot lib call = Inr fig)"
    by (simp add: create_plot_def and_then_eq_Inr)
next
  assume "label_layers b = []"
  then show "create_interactive_plot lib b = Inr None"
    by (simp add: create_interactive_plot_def)
next
  assume "label_layers b \<noteq> []"
  then have "create_interactive_plot lib b =
      and_then (render_html_arguments lib b)
        (\<lambda>call. and_then (render_html lib call)
           (\<lambda>html_str. Inr (Some (InteractiveFigure html_str (width b) (height b)))))"
    by (simp add: create_interactive_plot_def)
  then show "create_interactive_plot lib b = Inr r \<longleftrightarrow>
         (\<exists>call html_str.
            render_html_arguments lib b = Inr call \<and>
            render_html lib call = Inr html_str \<and>
            r = Some (InteractiveFigure html_str (width b) (height b)))"
    by (auto simp: and_then_eq_Inr)
qed

theorem entry_points_return_values_witness:
  "create_plot example_library example_plot_args = Inr example_plot_call \<and>
   render_plot_arguments example_library example_plot_args = Inr example_plot_call \<and>
   render_plot example_library example_plot_call = Inr example_plot_call \<and>
   label_layers example_interactive_args \<noteq> [] \<and>
   render_html_arguments example_library example_interactive_args = Inr example_html_call \<and>
   render_html example_library example_html_call = Inr example_html_call \<and>
   create_interactive_plot example_library example_interactive_args =
     Inr (Some (InteractiveFigure example_html_call (PyStr ''100%'') (PyInt 800))) \<and>
   label_layers example_no_layers_args = [] \<and>
   create_interactive_plot example_library example_no_layers_args = Inr None"
proof -
  have plot: "render_plot example_library example_plot_call = Inr example_plot_call"
    and html: "render_html example_library example_html_call = Inr example_html_call"
    by (simp_all add: example_library_def)
  have layers: "label_layers example_interactive_args \<noteq> []"
    and none: "label_layers example_no_layers_args = []"
    and size: "width example_interactive_args = PyStr ''100%''"
      "height example_interactive_args = PyInt 800"
    by (simp_all add: example_interactive_args_def example_no_layers_args_def)
  note returns = entry_points_return_values
    [of example_library example_plot_args example_plot_call example_interactive_args
      "Some (InteractiveFigure example_html_call (PyStr ''100%'') (PyInt 800))"]
  from returns example_plot_arguments plot
  have "create_plot example_library example_plot_args = Inr example_plot_call"
    by blast
  moreover from returns layers
  have "create_interactive_plot example_library example_interactive_args =
     Inr (Some (InteractiveFigure example_html_call (PyStr ''100%'') (PyInt 800)))"
    by (simp add: example_html_arguments html size)
  moreover from entry_points_return_values [of example_library _ _ example_no_layers_args] none
  have "create_interactive_plot example_library example_no_layers_args = Inr None"
    by blast
  ultimately show ?thesis
    using example_plot_arguments plot layers example_html_arguments html none by simp
qed

text \<open>With no label layer the interactive entry point returns \<^verbatim>\<open>None\<close>, not a figure.\<close>

theorem no_label_layers_returns_none:
  "create_interactive_plot example_library example_no_layers_args = Inr None"
  by (simp add: create_interactive_plot_def example_no_layers_args_def)

section \<open>The loop over the label layers\<close>

lemma for_each_append:
  "for_each body (vs @ ws) s = and_then (for_each body vs s) (for_each body ws)"
proof (induction vs arbitrary: s)
  case Nil
  then show ?case by simp
next
  case (Cons v vs)
  then show ?case by (cases "body s v") simp_all
qed

lemma for_each_cong:
  assumes "\<And>s v. v \<in> set vs \<Longrightarrow> body s v = body' s (f v)"
  shows "for_each body vs s = for_each body' (map f vs) s"
  using assms
proof (induction vs arbitrary: s)
  case Nil
  then show ?case by simp
next
  case (Cons v vs)
  then show ?case by (cases "body' s (f v)") simp_all
qed

lemma masked_assign_Inr:
  "masked_assign vector (eq_mask vs n) c = Inr res \<longleftrightarrow>
     length vs = length vector \<and>
     res = map (\<lambda>(old, v). if v = n then c else old) (zip vector vs)"
proof -
  have "map (\<lambda>(old, hit). if hit then c else old) (zip vector (map (\<lambda>v. v = n) vs))
      = map (\<lambda>(old, v). if v = n then c else old) (zip vector vs)"
    by (simp add: zip_map2 split_beta)
  then show ?thesis
    by (auto simp: masked_assign_def eq_mask_def)
qed

text \<open>One label of one layer: the points of that label take its colour.\<close>

lemma paint_label_Inr:
  assumes "and_then (lookup color_map n) (\<lambda>c. masked_assign vector (eq_mask layer n) (uint8_rgb c))
     = Inr res"
  shows "length layer = length vector" and "length res = length vector"
    and "\<exists>c. color_map n = Some c"
    and "\<And>j. j < length vector \<Longrightarrow>
       (if layer ! j = n then map_option uint8_rgb (color_map n) = Some (res ! j)
        else res ! j = vector ! j)"
proof -
  from assms obtain c where c: "color_map n = Some c"
    and assign: "masked_assign vector (eq_mask layer n) (uint8_rgb c) = Inr res"
    by (auto simp: and_then_eq_Inr lookup_def split: option.splits)
  from assign have len: "length layer = length vector"
    and res: "res = map (\<lambda>(old, v). if v = n then uint8_rgb c else old) (zip vector layer)"
    by (simp_all add: masked_assign_Inr)
  show "length layer = length vector" by (rule len)
  show "length res = length vector" using len res by simp
  show "\<exists>c. color_map n = Some c" using c by blast
  show "if layer ! j = n then map_option uint8_rgb (color_map n) = Some (res ! j)
        else res ! j = vector ! j" if "j < length vector" for j
    using that len res c by simp
qed

text \<open>The labels of one layer, one after the other.\<close>

lemma paint_labels_Inr:
  assumes "for_each
      (\<lambda>vector n. and_then (lookup color_map n)
         (\<lambda>c. masked_assign vector (eq_mask layer n) (uint8_rgb c)))
      ns vector = Inr res"
  shows "length res = length vector \<and>
    (ns \<noteq> [] \<longrightarrow> length layer = length vector) \<and>
    (\<forall>j < length vector.
       if j < length layer \<and> layer ! j \<in> set ns
       then map_option uint8_rgb (color_map (layer ! j)) = Some (res ! j)
       else res ! j = vector ! j)"
  using assms
proof (induction ns arbitrary: vector)
  case Nil
  then show ?case by simp
next
  case (Cons n ns)
  let ?body = "\<lambda>vector n. and_then (lookup color_map n)
         (\<lambda>c. masked_assign vector (eq_mask layer n) (uint8_rgb c))"
  from Cons.prems obtain mid where
    mid: "?body vector n = Inr mid" and rest: "for_each ?body ns mid = Inr res"
    by (auto simp: and_then_eq_Inr)
  note first = paint_label_Inr [OF mid]
  note later = Cons.IH [OF rest]
  have each: "if j < length layer \<and> layer ! j \<in> set (n # ns)
       then map_option uint8_rgb (color_map (layer ! j)) = Some (res ! j)
       else res ! j = vector ! j" if j: "j < length vector" for j
  proof -
    from j first(2) have jm: "j < length mid" by simp
    from later jm have l: "if j < length layer \<and> layer ! j \<in> set ns
       then map_option uint8_rgb (color_map (layer ! j)) = Some (res ! j)
       else res ! j = mid ! j"
      by blast
    from first(4) [OF j] have f: "if layer ! j = n
        then map_option uint8_rgb (color_map n) = Some (mid ! j)
        else mid ! j = vector ! j" .
    from j first(1) have "j < length layer" by simp
    with l f show ?thesis by (auto split: if_splits)
  qed
  from later first(2) have "length res = length vector" by simp
  moreover have "n # ns \<noteq> [] \<longrightarrow> length layer = length vector"
    using first(1) by simp
  moreover have "\<forall>j < length vector.
       if j < length layer \<and> layer ! j \<in> set (n # ns)
       then map_option uint8_rgb (color_map (layer ! j)) = Some (res ! j)
       else res ! j = vector ! j"
    using each by blast
  ultimately show ?case by blast
qed

lemma label_map_base_keys:
  "fst ` set (zip (np_unique layer) (map int [0..<length (np_unique layer)])) = set layer"
proof -
  have "fst ` set (zip (np_unique layer) (map int [0..<length (np_unique layer)])) =
      set (map fst (zip (np_unique layer) (map int [0..<length (np_unique layer)])))"
    by (simp only: set_map)
  also have "map fst (zip (np_unique layer) (map int [0..<length (np_unique layer)]))
      = np_unique layer"
    by simp
  finally show ?thesis by simp
qed

lemma label_map_keys:
  "map fst (label_map layer noise) =
     (if noise \<in> set layer then np_unique layer else np_unique layer @ [noise])"
  by (simp add: label_map_def Let_def label_map_base_keys)

lemma label_map_values:
  "map snd (label_map layer noise) =
     (if noise \<in> set layer then map int [0..<length (np_unique layer)]
      else map int [0..<length (np_unique layer)] @ [- 1])"
  by (simp add: label_map_def Let_def label_map_base_keys)

lemma distinct_label_map_keys: "distinct (map fst (label_map layer noise))"
  by (simp add: label_map_keys)

lemma distinct_label_map_values: "distinct (map snd (label_map layer noise))"
  by (auto simp: label_map_values distinct_map inj_on_def)

lemma same_value_same_key:
  assumes "distinct (map snd kvs)" and "(k, v) \<in> set kvs" and "(k', v) \<in> set kvs"
  shows "k = k'"
proof -
  from assms(1) have "inj_on snd (set kvs)"
    by (simp add: distinct_map)
  from inj_onD [OF this, of "(k, v)" "(k', v)"] assms(2,3) show ?thesis
    by simp
qed

lemma same_key_same_value:
  assumes "distinct (map fst kvs)" and "(k, v) \<in> set kvs" and "(k, v') \<in> set kvs"
  shows "v = v'"
proof -
  from assms(1) have "inj_on fst (set kvs)"
    by (simp add: distinct_map)
  from inj_onD [OF this, of "(k, v)" "(k, v')"] assms(2,3) show ?thesis
    by simp
qed

lemma paint_layer_labels:
  "paint_layer color_map noise vector layer =
     for_each
       (\<lambda>vector n. and_then (lookup color_map n)
          (\<lambda>c. masked_assign vector (eq_mask layer n) (uint8_rgb c)))
       (unique_non_noise_labels layer noise) vector"
proof -
  let ?items = "label_map layer noise"
  let ?body = "\<lambda>vector (i, n). and_then (lookup color_map n)
      (\<lambda>c. masked_assign vector (eq_mask (map (dict_of ?items) layer) (Some i)) (uint8_rgb c))"
  let ?body' = "\<lambda>vector n. and_then (lookup color_map n)
      (\<lambda>c. masked_assign vector (eq_mask layer n) (uint8_rgb c))"
  note dk = distinct_label_map_keys [of layer noise]
  note dv = distinct_label_map_values [of layer noise]
  have dict: "dict_of ?items = map_of ?items"
    using dk by (rule dict_of_distinct)
  have "noise \<in> set (map fst ?items)"
    by (simp add: label_map_keys)
  then obtain ni where ni: "(noise, ni) \<in> set ?items"
    by auto
  with dk have noise: "map_of ?items noise = Some ni"
    by simp
  have index: "i \<noteq> ni \<longleftrightarrow> n \<noteq> noise" if "(n, i) \<in> set ?items" for n i
    using that ni same_value_same_key [OF dv] same_key_same_value [OF dk] by blast
  have mask: "eq_mask (map (dict_of ?items) layer) (Some i) = eq_mask layer n"
    if "(n, i) \<in> set ?items" for n i
  proof -
    have "(map_of ?items l = Some i) = (l = n)" for l
    proof
      assume "map_of ?items l = Some i"
      then have "(l, i) \<in> set ?items" by (rule map_of_SomeD)
      with that same_value_same_key [OF dv] show "l = n" by blast
    next
      assume "l = n"
      with that dk show "map_of ?items l = Some i" by simp
    qed
    then show ?thesis by (simp add: eq_mask_def dict)
  qed
  have "filter (\<lambda>(i, n). i \<noteq> ni) (label_unmap ?items) =
      map (\<lambda>(n, i). (i, n)) (filter (\<lambda>(n, i). n \<noteq> noise) ?items)"
  proof -
    have "filter (\<lambda>(i, n). i \<noteq> ni) (label_unmap ?items) =
        map (\<lambda>(n, i). (i, n)) (filter ((\<lambda>(i, n). i \<noteq> ni) \<circ> (\<lambda>(n, i). (i, n))) ?items)"
      by (simp add: label_unmap_def filter_map)
    also have "filter ((\<lambda>(i, n). i \<noteq> ni) \<circ> (\<lambda>(n, i). (i, n))) ?items =
        filter (\<lambda>(n, i). n \<noteq> noise) ?items"
      using index by (intro filter_cong) auto
    finally show ?thesis .
  qed
  moreover have "for_each ?body
      (map (\<lambda>(n, i). (i, n)) (filter (\<lambda>(n, i). n \<noteq> noise) ?items)) vector =
      for_each ?body' (map snd (map (\<lambda>(n, i). (i, n)) (filter (\<lambda>(n, i). n \<noteq> noise) ?items)))
        vector"
  proof (rule for_each_cong)
    fix s v
    assume "v \<in> set (map (\<lambda>(n, i). (i, n)) (filter (\<lambda>(n, i). n \<noteq> noise) ?items))"
    then obtain n i where v: "v = (i, n)" and "(n, i) \<in> set ?items"
      by auto
    with mask [of n i] show "?body s v = ?body' s (snd v)"
      by simp
  qed
  moreover have "map snd (map (\<lambda>(n, i). (i, n)) (filter (\<lambda>(n, i). n \<noteq> noise) ?items)) =
      unique_non_noise_labels layer noise"
  proof -
    have "map snd (map (\<lambda>(n, i). (i, n)) (filter (\<lambda>(n, i). n \<noteq> noise) ?items)) =
        map fst (filter ((\<lambda>n. n \<noteq> noise) \<circ> fst) ?items)"
      by (simp add: comp_def split_beta case_prod_unfold)
    also have "\<dots> = filter (\<lambda>n. n \<noteq> noise) (map fst ?items)"
      by (simp add: filter_map)
    also have "\<dots> = unique_non_noise_labels layer noise"
      by (simp add: label_map_keys unique_non_noise_labels_def)
    finally show ?thesis .
  qed
  ultimately show ?thesis
    unfolding paint_layer_def Let_def
    by (simp add: lookup_def dict noise)
qed

lemma paint_layer_Inr:
  assumes "paint_layer color_map noise vector layer = Inr res"
  shows "length res = length vector \<and>
    (\<forall>j < length vector.
       if j < length layer \<and> layer ! j \<noteq> noise
       then map_option uint8_rgb (color_map (layer ! j)) = Some (res ! j)
       else res ! j = vector ! j)"
proof -
  from assms paint_labels_Inr [of color_map layer "unique_non_noise_labels layer noise" vector res]
  have len: "length res = length vector"
    and each: "\<forall>j < length vector.
       if j < length layer \<and> layer ! j \<in> set (unique_non_noise_labels layer noise)
       then map_option uint8_rgb (color_map (layer ! j)) = Some (res ! j)
       else res ! j = vector ! j"
    by (simp_all add: paint_layer_labels)
  have "(j < length layer \<and> layer ! j \<in> set (unique_non_noise_labels layer noise)) =
      (j < length layer \<and> layer ! j \<noteq> noise)" for j
    by (auto simp: set_unique_non_noise_labels)
  with len each show ?thesis by simp
qed

text \<open>All layers, the last one first.\<close>

lemma paint_layers_Inr:
  assumes "for_each (paint_layer color_map noise) (rev layers) vector = Inr res"
  shows "length res = length vector \<and>
    (\<forall>j < length vector.
       case find (\<lambda>layer. j < length layer \<and> layer ! j \<noteq> noise) layers of
         None \<Rightarrow> res ! j = vector ! j
       | Some layer \<Rightarrow> map_option uint8_rgb (color_map (layer ! j)) = Some (res ! j))"
  using assms
proof (induction layers arbitrary: res)
  case Nil
  then show ?case by simp
next
  case (Cons layer layers)
  from Cons.prems obtain mid where
    mid: "for_each (paint_layer color_map noise) (rev layers) vector = Inr mid"
    and last: "paint_layer color_map noise mid layer = Inr res"
    by (auto simp: for_each_append and_then_eq_Inr)
  note before = Cons.IH [OF mid]
  note after = paint_layer_Inr [OF last]
  let ?P = "\<lambda>j layer. j < length layer \<and> layer ! j \<noteq> noise"
  have len: "length mid = length vector" "length res = length mid"
    using before after by simp_all
  have "case find (?P j) (layer # layers) of
         None \<Rightarrow> res ! j = vector ! j
       | Some layer \<Rightarrow> map_option uint8_rgb (color_map (layer ! j)) = Some (res ! j)"
    if j: "j < length vector" for j
  proof (cases "?P j layer")
    case True
    then have found: "find (?P j) (layer # layers) = Some layer"
      by simp
    from after j len True
    have "map_option uint8_rgb (color_map (layer ! j)) = Some (res ! j)"
      by auto
    then show ?thesis
      unfolding found by simp
  next
    case False
    then have found: "find (?P j) (layer # layers) = find (?P j) layers"
      by auto
    from after j len False have same: "res ! j = mid ! j"
      by auto
    from before j
    have "case find (?P j) layers of
         None \<Rightarrow> mid ! j = vector ! j
       | Some layer \<Rightarrow> map_option uint8_rgb (color_map (layer ! j)) = Some (mid ! j)"
      by blast
    then show ?thesis
      unfolding found same .
  qed
  with len show ?case by simp
qed

lemma uint8_exact:
  assumes "0 \<le> r" and "r \<le> 255"
  shows "uint (word_of_int r :: 8 word) = r"
  using assms by (simp add: uint_word_of_int take_bit_int_eq_self)

lemma int_trunc_unit_interval:
  assumes "0 \<le> v" and "v \<le> 1"
  shows "0 \<le> int_trunc (v * 255) \<and> int_trunc (v * 255) \<le> 255"
proof -
  from assms have "0 \<le> v * 255" "v * 255 \<le> 255"
    by simp_all
  then have "0 \<le> \<lfloor>v * 255\<rfloor>" "\<lfloor>v * 255\<rfloor> \<le> 255"
    by (simp_all add: floor_le_iff)
  with \<open>0 \<le> v * 255\<close> show ?thesis
    by (simp add: int_trunc_def)
qed

lemma int_rgb_bytes:
  assumes range: "\<forall>c r g b. to_rgb lib c = Inr (r, g, b) \<longrightarrow>
      0 \<le> r \<and> r \<le> 1 \<and> 0 \<le> g \<and> g \<le> 1 \<and> 0 \<le> b \<and> b \<le> 1"
    and rgb: "int_rgb lib c = Inr (r, g, b)"
  shows "0 \<le> r \<and> r \<le> 255 \<and> 0 \<le> g \<and> g \<le> 255 \<and> 0 \<le> b \<and> b \<le> 255"
proof -
  from rgb obtain x y z where xyz: "to_rgb lib c = Inr (x, y, z)"
    and r: "r = int_trunc (x * 255)" and g: "g = int_trunc (y * 255)"
    and b: "b = int_trunc (z * 255)"
    by (auto simp: int_rgb_def and_then_eq_Inr)
  from range xyz have "0 \<le> x \<and> x \<le> 1 \<and> 0 \<le> y \<and> y \<le> 1 \<and> 0 \<le> z \<and> z \<le> 1"
    by blast
  then show ?thesis
    unfolding r g b by (simp add: int_trunc_unit_interval)
qed

lemma uint8_rgb_exact:
  assumes "0 \<le> r \<and> r \<le> 255 \<and> 0 \<le> g \<and> g \<le> 255 \<and> 0 \<le> b \<and> b \<le> 255"
    and "uint8_rgb (r, g, b) = (x, y, z)"
  shows "(uint x, uint y, uint z) = (r, g, b)"
  using assms by (auto simp: uint8_rgb_def uint8_exact)

lemma comprehension_image:
  assumes "comprehension f vs = Inr ws" and "w \<in> set ws"
  shows "\<exists>v \<in> set vs. f v = Inr w"
proof -
  from assms(1) have "list_all2 (\<lambda>v w. f v = Inr w) vs ws"
    by (simp add: comprehension_Inr_iff)
  with assms(2) obtain i where "i < length ws" "w = ws ! i" "length vs = length ws"
    "f (vs ! i) = Inr (ws ! i)"
    by (auto simp: list_all2_conv_all_nth in_set_conv_nth)
  then have "vs ! i \<in> set vs" "f (vs ! i) = Inr w"
    by simp_all
  then show ?thesis by blast
qed

lemma interactive_colors_bytes:
  assumes range: "\<forall>c r g b. to_rgb lib c = Inr (r, g, b) \<longrightarrow>
      0 \<le> r \<and> r \<le> 1 \<and> 0 \<le> g \<and> g \<le> 1 \<and> 0 \<le> b \<and> b \<le> 1"
    and colors: "interactive_colors lib a frame = Inr (color_map, text_palette)"
    and entry: "color_map l = Some (r, g, b)"
  shows "0 \<le> r \<and> r \<le> 255 \<and> 0 \<le> g \<and> g \<le> 255 \<and> 0 \<le> b \<and> b \<le> 255"
proof -
  have "\<exists>c. int_rgb lib c = Inr (r, g, b)"
  proof (cases "label_color_map a")
    case None
    with colors obtain palette int_palette where
      ints: "comprehension (int_rgb lib) palette = Inr int_palette"
      and cm: "color_map = dict_of (zip (map row_label frame) int_palette)"
      by (auto simp: interactive_colors_def and_then_eq_Inr)
    from entry cm have "(l, (r, g, b)) \<in> set (zip (map row_label frame) int_palette)"
      by (simp add: dict_of_SomeD)
    then have "(r, g, b) \<in> set int_palette"
      by (rule set_zip_rightD)
    with comprehension_image [OF ints] show ?thesis by blast
  next
    case (Some given)
    with colors obtain items where
      items: "comprehension (\<lambda>(l, c). and_then (int_rgb lib c) (\<lambda>v. Inr (l, v))) given
         = Inr items"
      and cm: "color_map = dict_of items"
      by (auto simp: interactive_colors_def and_then_eq_Inr)
    from entry cm have "(l, (r, g, b)) \<in> set items"
      by (simp add: dict_of_SomeD)
    from comprehension_image [OF items this] show ?thesis
      by (auto simp: and_then_eq_Inr)
  qed
  with range show ?thesis by (auto dest: int_rgb_bytes)
qed

lemma render_html_arguments_cases:
  assumes "render_html_arguments lib a = Inr call"
  obtains frame color_map text_palette colored wrapped points where
    "label_dataframe lib a = Inr frame"
    "interactive_colors lib a frame = Inr (color_map, text_palette)"
    "color_label_dataframe (color_label_text a \<or> color_cluster_boundaries a) (darkmode a)
       text_palette frame = Inr colored"
    "wrap_label_dataframe lib (label_wrap_width a) colored = Inr wrapped"
    "point_dataframe lib a color_map = Inr points"
    "call = \<lparr> rh_point_dataframe = points, rh_label_dataframe = wrapped,
        rh_inline_data = inline_data a, rh_color_label_text = color_label_text a,
        rh_darkmode = darkmode a, rh_kwds = render_html_kwds a \<rparr>"
  using assms
  unfolding render_html_arguments_def and_then_eq_Inr split_beta
  by (elim exE conjE) (auto simp: and_then_eq_Inr)

lemma optional_column_length:
  "optional_column n_rows column = Inr vs \<Longrightarrow> length vs = n_rows"
  by (auto simp: optional_column_def split: option.splits if_splits)

lemma point_dataframe_colors:
  assumes "point_dataframe lib a color_map = Inr points"
  shows "\<exists>vector.
    color_vector lib a color_map = Inr vector \<and>
    length vector = length (data_map_coords a) \<and>
    length points = length (data_map_coords a) \<and>
    (\<forall>i < length (data_map_coords a).
       (pt_r (points ! i), pt_g (points ! i), pt_b (points ! i)) = vector ! i)"
proof -
  let ?n = "length (data_map_coords a)"
  from assms obtain hover sizes vector where
    hover: "optional_column ?n (hover_text a) = Inr hover"
    and sizes: "optional_column ?n (marker_size_array a) = Inr sizes"
    and vector: "color_vector lib a color_map = Inr vector"
    and columns: "color_columns ?n vector = Inr vector"
    and points: "points =
      map (\<lambda>((x, y), h, s, (r, g, b)).
             \<lparr> pt_x = x, pt_y = y, pt_hover_text = h, pt_size = s,
               pt_r = r, pt_g = g, pt_b = b, pt_a = 180 \<rparr>)
        (zip (data_map_coords a) (zip hover (zip sizes vector)))"
    by (auto simp: point_dataframe_def Let_def and_then_eq_Inr color_columns_def
        split: if_splits)
  from columns have len: "length vector = ?n"
    by (auto simp: color_columns_def split: if_splits)
  note lens = optional_column_length [OF hover] optional_column_length [OF sizes] len
  have "(pt_r (points ! i), pt_g (points ! i), pt_b (points ! i)) = vector ! i"
    if "i < ?n" for i
    using that lens unfolding points by (simp add: split_beta)
  with vector lens points show ?thesis by simp
qed

lemma color_vector_layers:
  assumes "marker_color_array a = None"
    and "color_vector lib a color_map = Inr vector"
  shows "\<exists>noise_rgb.
    int_rgb lib (noise_color a) = Inr noise_rgb \<and>
    length vector = length (data_map_coords a) \<and>
    (\<forall>i < length (data_map_coords a).
       case find (\<lambda>layer. i < length layer \<and> layer ! i \<noteq> noise_label a) (label_layers a) of
         None \<Rightarrow> vector ! i = uint8_rgb noise_rgb
       | Some layer \<Rightarrow> map_option uint8_rgb (color_map (layer ! i)) = Some (vector ! i))"
proof -
  from assms obtain noise_rgb where
    noise: "int_rgb lib (noise_color a) = Inr noise_rgb"
    and loop: "for_each (paint_layer color_map (noise_label a)) (rev (label_layers a))
      (replicate (length (data_map_coords a)) (uint8_rgb noise_rgb)) = Inr vector"
    by (auto simp: color_vector_def and_then_eq_Inr)
  from paint_layers_Inr [OF loop] noise show ?thesis
    by (auto split: option.splits)
qed

section \<open>Point colours of the interactive plot\<close>

text \<open>
  Claim C8. Without a \<^verbatim>\<open>marker_color_array\<close> and with at least one label layer, the
  point dataframe passed to \<^verbatim>\<open>render_html\<close> has one row for each point, and the
  colour of point \<open>i\<close> is the colour in \<^verbatim>\<open>color_map\<close> of its label in the first
  layer in which it has a label other than the noise label, stored as bytes; a point
  that is noise in every layer has the noise colour. When \<^verbatim>\<open>to_rgb\<close> returns
  components between 0 and 1, the bytes are the integers of \<^verbatim>\<open>color_map\<close>
  themselves.
\<close>

theorem marker_colors_from_finest_layer:
  assumes "marker_color_array a = None"
    and "label_layers a \<noteq> []"
    and "render_html_arguments lib a = Inr call"
  shows "\<exists>frame color_map text_palette noise_rgb.
    label_dataframe lib a = Inr frame \<and>
    interactive_colors lib a frame = Inr (color_map, text_palette) \<and>
    int_rgb lib (noise_color a) = Inr noise_rgb \<and>
    length (rh_point_dataframe call) = length (data_map_coords a) \<and>
    (\<forall>i < length (data_map_coords a).
       case find (\<lambda>layer. i < length layer \<and> layer ! i \<noteq> noise_label a) (label_layers a) of
         None \<Rightarrow>
           (pt_r (rh_point_dataframe call ! i), pt_g (rh_point_dataframe call ! i),
            pt_b (rh_point_dataframe call ! i)) = uint8_rgb noise_rgb
       | Some layer \<Rightarrow>
           map_option uint8_rgb (color_map (layer ! i)) =
             Some (pt_r (rh_point_dataframe call ! i), pt_g (rh_point_dataframe call ! i),
                   pt_b (rh_point_dataframe call ! i))) \<and>
    ((\<forall>c r g b. to_rgb lib c = Inr (r, g, b) \<longrightarrow>
        0 \<le> r \<and> r \<le> 1 \<and> 0 \<le> g \<and> g \<le> 1 \<and> 0 \<le> b \<and> b \<le> 1) \<longrightarrow>
     (\<forall>i < length (data_map_coords a).
        case find (\<lambda>layer. i < length layer \<and> layer ! i \<noteq> noise_label a) (label_layers a) of
          None \<Rightarrow>
            (uint (pt_r (rh_point_dataframe call ! i)), uint (pt_g (rh_point_dataframe call ! i)),
             uint (pt_b (rh_point_dataframe call ! i))) = noise_rgb
        | Some layer \<Rightarrow>
            color_map (layer ! i) =
              Some (uint (pt_r (rh_point_dataframe call ! i)),
                    uint (pt_g (rh_point_dataframe call ! i)),
                    uint (pt_b (rh_point_dataframe call ! i)))))"
proof -
  let ?n = "length (data_map_coords a)"
  let ?first = "\<lambda>i. find (\<lambda>layer. i < length layer \<and> layer ! i \<noteq> noise_label a) (label_layers a)"
  let ?rgb = "\<lambda>i. (pt_r (rh_point_dataframe call ! i), pt_g (rh_point_dataframe call ! i),
            pt_b (rh_point_dataframe call ! i))"
  from assms(3) obtain frame color_map text_palette points where
    frame: "label_dataframe lib a = Inr frame"
    and colors: "interactive_colors lib a frame = Inr (color_map, text_palette)"
    and points: "point_dataframe lib a color_map = Inr points"
    and call: "rh_point_dataframe call = points"
    by (elim render_html_arguments_cases) simp
  from point_dataframe_colors [OF points] call obtain vector where
    vector: "color_vector lib a color_map = Inr vector"
    and len: "length (rh_point_dataframe call) = ?n"
    and row: "\<forall>i < ?n. ?rgb i = vector ! i"
    by auto
  from color_vector_layers [OF assms(1) vector] obtain noise_rgb where
    noise: "int_rgb lib (noise_color a) = Inr noise_rgb"
    and layers: "\<forall>i < ?n. case ?first i of
         None \<Rightarrow> vector ! i = uint8_rgb noise_rgb
       | Some layer \<Rightarrow> map_option uint8_rgb (color_map (layer ! i)) = Some (vector ! i)"
    by blast
  have cast: "case ?first i of
         None \<Rightarrow> ?rgb i = uint8_rgb noise_rgb
       | Some layer \<Rightarrow> map_option uint8_rgb (color_map (layer ! i)) = Some (?rgb i)"
    if "i < ?n" for i
  proof -
    from row that have "vector ! i = ?rgb i"
      by simp
    moreover from layers that have "case ?first i of
         None \<Rightarrow> vector ! i = uint8_rgb noise_rgb
       | Some layer \<Rightarrow> map_option uint8_rgb (color_map (layer ! i)) = Some (vector ! i)"
      by blast
    ultimately show ?thesis
      by (simp only:)
  qed
  have exact: "case ?first i of
          None \<Rightarrow>
            (uint (pt_r (rh_point_dataframe call ! i)), uint (pt_g (rh_point_dataframe call ! i)),
             uint (pt_b (rh_point_dataframe call ! i))) = noise_rgb
        | Some layer \<Rightarrow>
            color_map (layer ! i) =
              Some (uint (pt_r (rh_point_dataframe call ! i)),
                    uint (pt_g (rh_point_dataframe call ! i)),
                    uint (pt_b (rh_point_dataframe call ! i)))"
    if range: "\<forall>c r g b. to_rgb lib c = Inr (r, g, b) \<longrightarrow>
        0 \<le> r \<and> r \<le> 1 \<and> 0 \<le> g \<and> g \<le> 1 \<and> 0 \<le> b \<and> b \<le> 1"
      and i: "i < ?n" for i
  proof (cases "?first i")
    case None
    obtain r g b where rgb: "noise_rgb = (r, g, b)"
      by (cases noise_rgb)
    from int_rgb_bytes [OF range noise [unfolded rgb]]
    have bytes: "0 \<le> r \<and> r \<le> 255 \<and> 0 \<le> g \<and> g \<le> 255 \<and> 0 \<le> b \<and> b \<le> 255" .
    from cast [OF i] None have "uint8_rgb (r, g, b) = ?rgb i"
      by (simp add: rgb)
    from uint8_rgb_exact [OF bytes this] None rgb show ?thesis
      by simp
  next
    case (Some layer)
    with cast [OF i] obtain c where c: "color_map (layer ! i) = Some c" "uint8_rgb c = ?rgb i"
      by auto
    obtain r g b where rgb: "c = (r, g, b)"
      by (cases c)
    from interactive_colors_bytes [OF range colors c(1) [unfolded rgb]]
    have bytes: "0 \<le> r \<and> r \<le> 255 \<and> 0 \<le> g \<and> g \<le> 255 \<and> 0 \<le> b \<and> b \<le> 255" .
    from uint8_rgb_exact [OF bytes c(2) [unfolded rgb]] Some c(1) rgb show ?thesis
      by simp
  qed
  from frame colors noise len cast exact show ?thesis
    by blast
qed

theorem marker_colors_witness:
  "marker_color_array example_interactive_args = None \<and>
   label_layers example_interactive_args \<noteq> [] \<and>
   render_html_arguments example_library example_interactive_args = Inr example_html_call \<and>
   length (rh_point_dataframe example_html_call) = 4 \<and>
   find (\<lambda>layer. 2 < length layer \<and> layer ! 2 \<noteq> noise_label example_interactive_args)
     (label_layers example_interactive_args) = Some [''c'', ''c'', ''c'', ''Unlabelled''] \<and>
   (pt_r (rh_point_dataframe example_html_call ! 2), pt_g (rh_point_dataframe example_html_call ! 2),
    pt_b (rh_point_dataframe example_html_call ! 2)) = uint8_rgb (255, 127, 14) \<and>
   find (\<lambda>layer. 3 < length layer \<and> layer ! 3 \<noteq> noise_label example_interactive_args)
     (label_layers example_interactive_args) = None \<and>
   (pt_r (rh_point_dataframe example_html_call ! 3), pt_g (rh_point_dataframe example_html_call ! 3),
    pt_b (rh_point_dataframe example_html_call ! 3)) = uint8_rgb (153, 153, 153)"
proof -
  have hyps: "marker_color_array example_interactive_args = None"
    "label_layers example_interactive_args \<noteq> []"
    by (simp_all add: example_interactive_args_def)
  have len: "length (data_map_coords example_interactive_args) = 4"
    by (simp add: example_interactive_args_def)
  have first2: "find (\<lambda>layer. 2 < length layer \<and> layer ! 2 \<noteq> noise_label example_interactive_args)
     (label_layers example_interactive_args) = Some [''c'', ''c'', ''c'', ''Unlabelled'']"
    by (simp add: example_interactive_args_def)
  have first3: "find (\<lambda>layer. 3 < length layer \<and> layer ! 3 \<noteq> noise_label example_interactive_args)
     (label_layers example_interactive_args) = None"
    by (simp add: example_interactive_args_def)
  from marker_colors_from_finest_layer [OF hyps example_html_arguments, unfolded len]
  obtain frame color_map text_palette noise_rgb where
    frame: "label_dataframe example_library example_interactive_args = Inr frame"
    and colors: "interactive_colors example_library example_interactive_args frame
       = Inr (color_map, text_palette)"
    and noise: "int_rgb example_library (noise_color example_interactive_args) = Inr noise_rgb"
    and rows: "length (rh_point_dataframe example_html_call) = 4"
    and each: "\<forall>i < 4.
       case find (\<lambda>layer. i < length layer \<and> layer ! i \<noteq> noise_label example_interactive_args)
           (label_layers example_interactive_args) of
         None \<Rightarrow>
           (pt_r (rh_point_dataframe example_html_call ! i),
            pt_g (rh_point_dataframe example_html_call ! i),
            pt_b (rh_point_dataframe example_html_call ! i)) = uint8_rgb noise_rgb
       | Some layer \<Rightarrow>
           map_option uint8_rgb (color_map (layer ! i)) =
             Some (pt_r (rh_point_dataframe example_html_call ! i),
                   pt_g (rh_point_dataframe example_html_call ! i),
                   pt_b (rh_point_dataframe example_html_call ! i))"
    by blast
  from frame have "frame = [\<lparr> row_x = 0, row_y = 0, row_label = ''b'' \<rparr>,
        \<lparr> row_x = 0, row_y = 0, row_label = ''c'' \<rparr>]"
    by (simp add: example_label_dataframe)
  with colors have cm: "color_map = [''b'' \<mapsto> (31, 119, 180), ''c'' \<mapsto> (255, 127, 14)]"
    by (simp add: example_interactive_colors)
  from noise have nz: "noise_rgb = (153, 153, 153)"
    by (simp add: example_interactive_args_def example_int_rgb)
  from each have "case find (\<lambda>layer. 2 < length layer \<and> layer ! 2 \<noteq> noise_label example_interactive_args)
           (label_layers example_interactive_args) of
         None \<Rightarrow>
           (pt_r (rh_point_dataframe example_html_call ! 2),
            pt_g (rh_point_dataframe example_html_call ! 2),
            pt_b (rh_point_dataframe example_html_call ! 2)) = uint8_rgb noise_rgb
       | Some layer \<Rightarrow>
           map_option uint8_rgb (color_map (layer ! 2)) =
             Some (pt_r (rh_point_dataframe example_html_call ! 2),
                   pt_g (rh_point_dataframe example_html_call ! 2),
                   pt_b (rh_point_dataframe example_html_call ! 2))"
    by simp
  then have two: "(pt_r (rh_point_dataframe example_html_call ! 2),
      pt_g (rh_point_dataframe example_html_call ! 2),
      pt_b (rh_point_dataframe example_html_call ! 2)) = uint8_rgb (255, 127, 14)"
    unfolding first2 by (simp add: cm)
  from each have "case find (\<lambda>layer. 3 < length layer \<and> layer ! 3 \<noteq> noise_label example_interactive_args)
           (label_layers example_interactive_args) of
         None \<Rightarrow>
           (pt_r (rh_point_dataframe example_html_call ! 3),
            pt_g (rh_point_dataframe example_html_call ! 3),
            pt_b (rh_point_dataframe example_html_call ! 3)) = uint8_rgb noise_rgb
       | Some layer \<Rightarrow>
           map_option uint8_rgb (color_map (layer ! 3)) =
             Some (pt_r (rh_point_dataframe example_html_call ! 3),
                   pt_g (rh_point_dataframe example_html_call ! 3),
                   pt_b (rh_point_dataframe example_html_call ! 3))"
    by simp
  then have three: "(pt_r (rh_point_dataframe example_html_call ! 3),
      pt_g (rh_point_dataframe example_html_call ! 3),
      pt_b (rh_point_dataframe example_html_call ! 3)) = uint8_rgb (153, 153, 153)"
    unfolding first3 by (simp add: nz)
  from hyps example_html_arguments rows first2 two first3 three show ?thesis
    by (simp only: simp_thms)
qed

end
